theory Spec2Isabelle
  imports Main
begin

section \<open>JavaScript values, errors and callback outcomes\<close>

text \<open>
  The store of the mail trap exists in two variants in the repository:
  \<^verbatim>\<open>src/lib/store.js\<close>, the module that \<^verbatim>\<open>src/lib/mailserver.js\<close> loads with
  \<^verbatim>\<open>require('./store')\<close>, and \<^verbatim>\<open>src/unnamed/part_002\<close>. The methods that are the same
  text in both files are modelled once. Where the two files differ, the definition taken
  from \<^verbatim>\<open>src/lib/store.js\<close> keeps the source's name and the one taken from
  \<^verbatim>\<open>src/unnamed/part_002\<close> carries the suffix \<^verbatim>\<open>_p2\<close>.
\<close>

datatype error = Error string | TypeError string | ReferenceError string

text \<open>
  The values the code tests for truthiness or stores in a message. \<open>JObj\<close> is an object
  the store never looks into (a parsed address list, the header map of an attachment);
  \<open>JRec\<close> is a plain object given by its properties.
\<close>

datatype jsval =
    JUndefined | JNull | JBool bool | JNum int | JStr string | JDate nat | JObj string
  | JRec "(string \<times> jsval) list"

fun truthy :: "jsval \<Rightarrow> bool" where
  "truthy JUndefined = False"
| "truthy JNull = False"
| "truthy (JBool b) = b"
| "truthy (JNum n) = (n \<noteq> 0)"
| "truthy (JStr s) = (s \<noteq> [])"
| "truthy (JDate t) = True"
| "truthy (JObj x) = True"
| "truthy (JRec kvs) = True"

text \<open>
  What a call of a callback-style operation ends in: \<open>CbErr e\<close> is \<^verbatim>\<open>callback(e)\<close>,
  \<open>CbOk v\<close> is \<^verbatim>\<open>callback(null, v)\<close>, \<open>Threw e\<close> is an exception that leaves the operation
  before any callback, \<open>NoCall\<close> is a normal return that never invoked the callback.
\<close>

datatype 'a outcome = CbErr error | CbOk 'a | Threw error | NoCall

section \<open>Records of the store\<close>

record attachment =
  generatedFileName :: "string option"
  filename :: "string option"
  contentType :: "string option"
  contentDisposition :: "string option"
  checksum :: "string option"
  att_size :: "nat option"
  att_headers :: jsval
  contentId :: "string option"
  related :: "bool option"
  att_source :: "string option"

text \<open>
  A message is a JavaScript object. Its properties that the code reads with a fixed
  name are fields; the properties that \<^verbatim>\<open>copy\<close> writes under a computed key (and the
  envelope's, spread into the object) live in \<open>props\<close>. \<open>None\<close> is an absent property.
\<close>

record message =
  msg_id :: string
  props :: "string \<rightharpoonup> jsval"
  attachments :: "attachment list option"
  source :: "string option"
  msg_size :: "nat option"
  sizeHuman :: "string option"
  read :: "bool option"

record store =
  mailDir :: string
  messages :: "message list"

text \<open>
  The part of the file system the store touches: file contents by path, the directories
  that exist, and the write streams that were opened and not yet ended.
\<close>

record fsys =
  files :: "string \<rightharpoonup> string"
  dirs :: "string set"
  open_ws :: "string list"

datatype stream = ReadStream string

text \<open>
  \<^verbatim>\<open>fs.createReadStream(p)\<close>: Node raises a TypeError at once when \<open>p\<close> is
  \<^verbatim>\<open>undefined\<close>; with a path it returns a stream (a missing file shows later, on read).
\<close>

definition createReadStream :: "string option \<Rightarrow> error + stream" where
  "createReadStream p =
     (case p of
        None \<Rightarrow> Inl (TypeError ''The path argument must be of type string'')
      | Some q \<Rightarrow> Inr (ReadStream q))"

definition path_join :: "string \<Rightarrow> string \<Rightarrow> string" where
  "path_join a b = a @ ''/'' @ b"

section \<open>Store: lookup\<close>

definition emailById :: "store \<Rightarrow> string \<Rightarrow> error + message" where
  "emailById st i =
     (let email = filter (\<lambda>element. msg_id element = i) (messages st)
      in if length email = 1 then Inr (email ! 0)
         else Inl (Error ''Email was not found''))"

definition emailStreamById :: "store \<Rightarrow> string \<Rightarrow> stream outcome" where
  "emailStreamById st i =
     (case emailById st i of
        Inl err \<Rightarrow> CbErr err
      | Inr email \<Rightarrow>
          (case createReadStream (source email) of
             Inl e \<Rightarrow> Threw e
           | Inr s \<Rightarrow> CbOk s))"

text \<open>
  \<^verbatim>\<open>src/lib/store.js\<close>, lines 143-160. \<^verbatim>\<open>match\<close> is the array \<^verbatim>\<open>filter\<close> returns, so
  \<^verbatim>\<open>match.contentType\<close> and \<^verbatim>\<open>match.source\<close> are properties of the array, not of its
  element: both are \<^verbatim>\<open>undefined\<close>, written \<open>None\<close> here.
\<close>

definition emailAttachmentStreamById ::
  "store \<Rightarrow> string \<Rightarrow> string \<Rightarrow> (string option \<times> stream) outcome" where
  "emailAttachmentStreamById st i fname =
     (case emailById st i of
        Inl err \<Rightarrow> CbErr err
      | Inr email \<Rightarrow>
          (case attachments email of
             None \<Rightarrow> CbErr (Error ''Email has no attachments'')
           | Some atts \<Rightarrow>
               if length atts = 0 then CbErr (Error ''Email has no attachments'')
               else
                 (let match = filter (\<lambda>a. generatedFileName a = Some fname) atts
                  in if length match = 0 then CbErr (Error ''Attachment not found'')
                     else
                       (case createReadStream None of
                          Inl e \<Rightarrow> Threw e
                        | Inr s \<Rightarrow> CbOk (None, s)))))"

text \<open>\<^verbatim>\<open>src/unnamed/part_002\<close>, lines 167-185: the first element of \<^verbatim>\<open>match\<close> is read.\<close>

definition emailAttachmentStreamById_p2 ::
  "store \<Rightarrow> string \<Rightarrow> string \<Rightarrow> (string option \<times> stream) outcome" where
  "emailAttachmentStreamById_p2 st i fname =
     (case emailById st i of
        Inl err \<Rightarrow> CbErr err
      | Inr email \<Rightarrow>
          (case attachments email of
             None \<Rightarrow> CbErr (Error ''Email has no attachments'')
           | Some atts \<Rightarrow>
               if length atts = 0 then CbErr (Error ''Email has no attachments'')
               else
                 (let match = filter (\<lambda>a. generatedFileName a = Some fname) atts
                  in if length match = 0 then CbErr (Error ''Attachment not found'')
                     else
                       (case createReadStream (att_source (match ! 0)) of
                          Inl e \<Rightarrow> Threw e
                        | Inr s \<Rightarrow> CbOk (contentType (match ! 0), s)))))"

definition allEmails :: "store \<Rightarrow> message list" where
  "allEmails st = messages st"

section \<open>Store: read state\<close>

text \<open>
  The loop of \<^verbatim>\<open>markAllEmailRead\<close> over \<^verbatim>\<open>this.messages\<close>, with the counter it carries.
  \<^verbatim>\<open>!m.read\<close> holds for an absent flag and for \<^verbatim>\<open>false\<close>.
\<close>

fun markAllEmailRead_loop :: "message list \<Rightarrow> nat \<Rightarrow> message list \<times> nat" where
  "markAllEmailRead_loop [] count = ([], count)"
| "markAllEmailRead_loop (m # ms) count =
     (if read m \<noteq> Some True
      then (let r = markAllEmailRead_loop ms (count + 1) in (m\<lparr>read := Some True\<rparr> # fst r, snd r))
      else (let r = markAllEmailRead_loop ms count in (m # fst r, snd r)))"

definition markAllEmailRead :: "store \<Rightarrow> store \<times> nat outcome" where
  "markAllEmailRead st =
     (let r = markAllEmailRead_loop (messages st) 0
      in (st\<lparr>messages := fst r\<rparr>, CbOk (snd r)))"

section \<open>Store: deletion\<close>

text \<open>
  Neither store file declares or imports \<^verbatim>\<open>rimraf\<close> (their \<^verbatim>\<open>require\<close> lines name os, fs,
  path, ./utils, ./logger, strip-tags and mailparser), and the files are in strict mode:
  evaluating the identifier raises a ReferenceError.

  \<^verbatim>\<open>deleteAll\<close> empties the index, then asks for the listing of the root directory.
  \<open>listing\<close> is what \<^verbatim>\<open>fs.readdir\<close> hands to its callback; the outcome is that of the
  callback. \<^verbatim>\<open>deleteAll\<close> never calls the \<^verbatim>\<open>callback\<close> it is given.
\<close>

definition deleteAll :: "store \<Rightarrow> fsys \<Rightarrow> error + string list \<Rightarrow> store \<times> fsys \<times> unit outcome" where
  "deleteAll st fs listing =
     (let st' = st\<lparr>messages := []\<rparr>
      in (case listing of
            Inl err \<Rightarrow> (st', fs, Threw err)
          | Inr names \<Rightarrow>
              (case names of
                 [] \<Rightarrow> (st', fs, NoCall)
               | file # rest \<Rightarrow> (st', fs, Threw (ReferenceError ''rimraf is not defined'')))))"

text \<open>The \<^verbatim>\<open>for\<close> loop of \<^verbatim>\<open>deleteById\<close>: the first position whose record has the id.\<close>

fun deleteById_loop :: "message list \<Rightarrow> string \<Rightarrow> nat \<Rightarrow> nat option" where
  "deleteById_loop [] i k = None"
| "deleteById_loop (m # ms) i k = (if msg_id m = i then Some k else deleteById_loop ms i (k + 1))"

text \<open>
  \<^verbatim>\<open>if (!index)\<close> is taken when \<open>index\<close> is still \<^verbatim>\<open>undefined\<close> and when it is 0. Past it
  the first statement that runs calls \<^verbatim>\<open>rimraf\<close>, which raises, so the \<^verbatim>\<open>splice\<close> on
  line 225 is never reached.
\<close>

definition deleteById :: "store \<Rightarrow> string \<Rightarrow> store \<times> (string \<times> nat) outcome" where
  "deleteById st i =
     (case deleteById_loop (messages st) i 0 of
        None \<Rightarrow> (st, CbErr (Error ''Email not found''))
      | Some index \<Rightarrow>
          if index = 0 then (st, CbErr (Error ''Email not found''))
          else (st, Threw (ReferenceError ''rimraf is not defined'')))"

section \<open>Message assembly: the copy helper\<close>

text \<open>
  What \<^verbatim>\<open>copy\<close> reads from: a \<^verbatim>\<open>Map\<close> (the header set the parser emits; the branch of
  \<^verbatim>\<open>copy\<close> in \<^verbatim>\<open>src/unnamed/part_002\<close> marked \<^verbatim>\<open>// Map\<close> is for it), a plain object
  (the parser's \<^verbatim>\<open>data\<close> of a text part), or a value that is neither
  (\<^verbatim>\<open>src/lib/store.js\<close> passes \<^verbatim>\<open>data.text\<close>).
\<close>

datatype propsrc = SrcMap "string \<rightharpoonup> jsval" | SrcObject "string \<rightharpoonup> jsval" | SrcPrim jsval

text \<open>
  A property of a plain object (and the value \<^verbatim>\<open>get\<close> returns for a key of a \<^verbatim>\<open>Map\<close>):
  \<^verbatim>\<open>undefined\<close> when the key is absent.

  \<^verbatim>\<open>src[srcKey]\<close>, for the keys of the call sites (none of them names a member of a
  prototype). The entries of a \<^verbatim>\<open>Map\<close> are not properties of it. Reading a property of
  \<^verbatim>\<open>undefined\<close> or \<^verbatim>\<open>null\<close> raises a TypeError; a string has none of these properties.
\<close>

definition prop_of :: "(string \<rightharpoonup> jsval) \<Rightarrow> string \<Rightarrow> jsval" where
  "prop_of obj k = (case obj k of None \<Rightarrow> JUndefined | Some v \<Rightarrow> v)"

definition get_prop :: "propsrc \<Rightarrow> string \<Rightarrow> error + jsval" where
  "get_prop src k =
     (case src of
        SrcMap m \<Rightarrow> Inr JUndefined
      | SrcObject obj \<Rightarrow> Inr (prop_of obj k)
      | SrcPrim v \<Rightarrow>
          if v = JUndefined \<or> v = JNull
          then Inl (TypeError ''Cannot read properties of undefined'')
          else Inr JUndefined)"

text \<open>\<^verbatim>\<open>src/lib/store.js\<close>, lines 15-20. An omitted \<^verbatim>\<open>defaultValue\<close> is \<open>JUndefined\<close>.\<close>

definition copy ::
  "propsrc \<Rightarrow> string \<Rightarrow> (string \<rightharpoonup> jsval) \<Rightarrow> string \<Rightarrow> jsval \<Rightarrow> error + (string \<rightharpoonup> jsval)" where
  "copy src srcKey dst dstKey defaultValue =
     (case get_prop src srcKey of
        Inl e \<Rightarrow> Inl e
      | Inr v \<Rightarrow>
          if truthy v then Inr (dst(dstKey \<mapsto> v))
          else if truthy defaultValue then Inr (dst(dstKey \<mapsto> defaultValue))
          else Inr dst)"

text \<open>
  \<^verbatim>\<open>src/unnamed/part_002\<close>, lines 17-30. The fifth argument is a default value or a
  function; \<^verbatim>\<open>src.has && src.has(srcKey)\<close> is \<open>src_has\<close>, \<^verbatim>\<open>src.get(srcKey)\<close> is \<open>src_get\<close>.
\<close>

datatype arg5 = Value jsval | Function "jsval \<Rightarrow> jsval"

definition identity :: "jsval \<Rightarrow> jsval" where
  "identity t = t"

definition src_has :: "propsrc \<Rightarrow> string \<Rightarrow> error + bool" where
  "src_has src k =
     (case src of
        SrcMap m \<Rightarrow> Inr (m k \<noteq> None)
      | SrcObject obj \<Rightarrow>
          (case obj ''has'' of
             None \<Rightarrow> Inr False
           | Some h \<Rightarrow> if truthy h then Inl (TypeError ''src.has is not a function'') else Inr False)
      | SrcPrim v \<Rightarrow>
          if v = JUndefined \<or> v = JNull
          then Inl (TypeError ''Cannot read properties of undefined'')
          else Inr False)"

definition src_get :: "propsrc \<Rightarrow> string \<Rightarrow> jsval" where
  "src_get src k =
     (case src of
        SrcMap m \<Rightarrow> prop_of m k
      | SrcObject obj \<Rightarrow> JUndefined
      | SrcPrim v \<Rightarrow> JUndefined)"

definition copy_p2 ::
  "propsrc \<Rightarrow> string \<Rightarrow> (string \<rightharpoonup> jsval) \<Rightarrow> string \<Rightarrow> arg5 \<Rightarrow> error + (string \<rightharpoonup> jsval)" where
  "copy_p2 src srcKey dst dstKey defaultValue =
     (let is_transform = (case defaultValue of Function f \<Rightarrow> True | Value d \<Rightarrow> False);
          transform = (case defaultValue of Function f \<Rightarrow> f | Value d \<Rightarrow> identity)
      in case src_has src srcKey of
           Inl e \<Rightarrow> Inl e
         | Inr True \<Rightarrow> Inr (dst(dstKey \<mapsto> transform (src_get src srcKey)))
         | Inr False \<Rightarrow>
             (case get_prop src srcKey of
                Inl e \<Rightarrow> Inl e
              | Inr v \<Rightarrow>
                  if truthy v then Inr (dst(dstKey \<mapsto> transform v))
                  else
                    (case defaultValue of
                       Function f \<Rightarrow> Inr dst
                     | Value d \<Rightarrow> if truthy d then Inr (dst(dstKey \<mapsto> d)) else Inr dst)))"

text \<open>
  A run of \<^verbatim>\<open>copy\<close> statements on one source and one target, in the order written:
  each entry is (source key, target key, fifth argument). An exception ends the run.
\<close>

fun copy_all ::
  "(propsrc \<Rightarrow> string \<Rightarrow> (string \<rightharpoonup> jsval) \<Rightarrow> string \<Rightarrow> 'd \<Rightarrow> error + (string \<rightharpoonup> jsval)) \<Rightarrow>
   propsrc \<Rightarrow> (string \<times> string \<times> 'd) list \<Rightarrow> (string \<rightharpoonup> jsval) \<Rightarrow> error + (string \<rightharpoonup> jsval)" where
  "copy_all c src [] dst = Inr dst"
| "copy_all c src ((srcKey, dstKey, d) # rest) dst =
     (case c src srcKey dst dstKey d of
        Inl e \<Rightarrow> Inl e
      | Inr dst' \<Rightarrow> copy_all c src rest dst')"

text \<open>
  The fourteen statements of the \<^verbatim>\<open>headers\<close> listener. \<open>sender\<close> is the value of
  \<^verbatim>\<open>headers['sender']\<close>, \<open>now\<close> the clock read by \<^verbatim>\<open>new Date()\<close>.
\<close>

definition header_copies :: "'d \<Rightarrow> 'd \<Rightarrow> 'd \<Rightarrow> (string \<times> string \<times> 'd) list" where
  "header_copies sender omitted now =
     [(''from'', ''from'', sender),
      (''to'', ''to'', omitted),
      (''cc'', ''cc'', omitted),
      (''bcc'', ''bcc'', omitted),
      (''sender'', ''sender'', omitted),
      (''reply-to'', ''replyTo'', omitted),
      (''delivered-to'', ''deliveredTo'', omitted),
      (''return-path'', ''returnPath'', omitted),
      (''priority'', ''priority'', omitted),
      (''subject'', ''subject'', omitted),
      (''content-type'', ''contentType'', omitted),
      (''content-disposition'', ''contentDisposition'', omitted),
      (''dkim-signature'', ''dkimSignature'', omitted),
      (''date'', ''time'', now)]"

definition on_headers :: "propsrc \<Rightarrow> nat \<Rightarrow> (string \<rightharpoonup> jsval) \<Rightarrow> error + (string \<rightharpoonup> jsval)" where
  "on_headers headers now dst =
     (case get_prop headers ''sender'' of
        Inl e \<Rightarrow> Inl e
      | Inr sender \<Rightarrow> copy_all copy headers (header_copies sender JUndefined (JDate now)) dst)"

definition on_headers_p2 :: "propsrc \<Rightarrow> nat \<Rightarrow> (string \<rightharpoonup> jsval) \<Rightarrow> error + (string \<rightharpoonup> jsval)" where
  "on_headers_p2 headers now dst =
     (case get_prop headers ''sender'' of
        Inl e \<Rightarrow> Inl e
      | Inr sender \<Rightarrow>
          copy_all copy_p2 headers
            (header_copies (Value sender) (Value JUndefined) (Value (JDate now))) dst)"

text \<open>
  The text branch of the \<^verbatim>\<open>data\<close> listener. \<open>d\<close> holds the properties of \<^verbatim>\<open>data\<close>.
  \<^verbatim>\<open>src/lib/store.js\<close> (lines 71-73) reads from the value of \<^verbatim>\<open>data.text\<close>, which the
  parser gives as a string (\<open>as_source\<close> also admits a plain object there);
  \<^verbatim>\<open>src/unnamed/part_002\<close> (lines 92-94) reads from \<^verbatim>\<open>data\<close> and passes the html through
  \<^verbatim>\<open>stripTags(txt, ['script'])\<close>. \<^verbatim>\<open>stripTags\<close> is the package strip-tags, a parameter.
\<close>

definition as_source :: "jsval \<Rightarrow> propsrc" where
  "as_source v = (case v of JRec kvs \<Rightarrow> SrcObject (map_of kvs) | other \<Rightarrow> SrcPrim v)"

definition on_text :: "(string \<rightharpoonup> jsval) \<Rightarrow> (string \<rightharpoonup> jsval) \<Rightarrow> error + (string \<rightharpoonup> jsval)" where
  "on_text d dst =
     (let data_text = as_source (prop_of d ''text'')
      in copy_all copy data_text
           [(''text'', ''text'', JUndefined),
            (''html'', ''html'', JUndefined),
            (''textAsHtml'', ''textAsHtml'', JUndefined)] dst)"

definition on_text_p2 ::
  "(jsval \<Rightarrow> string list \<Rightarrow> jsval) \<Rightarrow> (string \<rightharpoonup> jsval) \<Rightarrow> (string \<rightharpoonup> jsval) \<Rightarrow> error + (string \<rightharpoonup> jsval)" where
  "on_text_p2 stripTags d dst =
     copy_all copy_p2 (SrcObject d)
       [(''text'', ''text'', Value JUndefined),
        (''html'', ''html'', Function (\<lambda>txt. stripTags txt [''script''])),
        (''textAsHtml'', ''textAsHtml'', Value JUndefined)] dst"

section \<open>Message assembly: sinks and parser events\<close>

text \<open>
  \<^verbatim>\<open>fs.createWriteStream(p)\<close> opens (creates or truncates) the file; writing appends a
  chunk; \<^verbatim>\<open>end()\<close> closes the stream and may be called again without effect.
\<close>

definition createWriteStream :: "string \<Rightarrow> fsys \<Rightarrow> fsys" where
  "createWriteStream p fs = fs\<lparr>files := (files fs)(p \<mapsto> []), open_ws := open_ws fs @ [p]\<rparr>"

definition ws_write :: "string \<Rightarrow> string \<Rightarrow> fsys \<Rightarrow> fsys" where
  "ws_write p chunk fs =
     fs\<lparr>files := (files fs)(p \<mapsto> (case files fs p of None \<Rightarrow> chunk | Some old \<Rightarrow> old @ chunk))\<rparr>"

definition ws_end :: "string \<Rightarrow> fsys \<Rightarrow> fsys" where
  "ws_end p fs = fs\<lparr>open_ws := removeAll p (open_ws fs)\<rparr>"

text \<open>The properties of the parser's \<^verbatim>\<open>data\<close> object for an attachment part.\<close>

record attachment_part =
  p_filename :: "string option"
  p_contentType :: "string option"
  p_contentDisposition :: "string option"
  p_checksum :: "string option"
  p_size :: "nat option"
  p_headers :: jsval
  p_cid :: "string option"
  p_related :: "bool option"

datatype pdata = AttachmentPart attachment_part | TextPart "string \<rightharpoonup> jsval" | OtherPart

text \<open>
  The events the listeners of \<^verbatim>\<open>parseMessage\<close> are registered for: a chunk and the end
  of the inbound stream; the parser's header set (with the clock at that moment), its
  data parts and its end; a chunk and the end of the content stream of the k-th
  attachment (counted from 0 in the order the parts arrived).
\<close>

datatype event =
    InData string
  | InEnd
  | ParserHeaders propsrc nat
  | ParserData pdata
  | ContentData nat string
  | ContentEnd nat
  | ParserEnd

text \<open>
  What \<^verbatim>\<open>outStreams.emlStream()\<close> returns: an \<^verbatim>\<open>fs.WriteStream\<close> for a path, or an object
  with the properties \<^verbatim>\<open>source\<close> and \<^verbatim>\<open>emlStream\<close>. \<^verbatim>\<open>parseMessage\<close> destructures
  \<^verbatim>\<open>{ source, emlStream }\<close> from it; a WriteStream has neither property.
\<close>

datatype emlret = WriteStream string | SourceAndStream "string option" "string option"

fun emlret_source :: "emlret \<Rightarrow> string option" where
  "emlret_source (WriteStream p) = None"
| "emlret_source (SourceAndStream src strm) = src"

fun emlret_emlStream :: "emlret \<Rightarrow> string option" where
  "emlret_emlStream (WriteStream p) = None"
| "emlret_emlStream (SourceAndStream src strm) = strm"

text \<open>
  The \<^verbatim>\<open>outStreams\<close> object: the provider of the raw sink, and the two property names
  under which the variants look up the provider of an attachment sink (which returns
  \<^verbatim>\<open>{ source, stream }\<close>). \<open>None\<close> is a property the object does not have.
\<close>

record outStreams =
  os_emlStream :: "fsys \<Rightarrow> emlret \<times> fsys"
  os_attachmentStream ::
    "(attachment \<Rightarrow> fsys \<Rightarrow> (error + string option \<times> string option) \<times> fsys) option"
  os_attachmentWriteStream ::
    "(attachment \<Rightarrow> fsys \<Rightarrow> (error + string option \<times> string option) \<times> fsys) option"

text \<open>
  The state of one \<^verbatim>\<open>parseMessage\<close> call: the \<^verbatim>\<open>message\<close> object, the local \<^verbatim>\<open>size\<close>, the
  raw sink when \<^verbatim>\<open>emlStream\<close> is truthy, the sink piped from each attachment, what has
  been written to the parser and whether its \<^verbatim>\<open>end()\<close> was called, whether the parser
  has emitted its end and the inbound stream its end, the messages the completion
  callback was invoked with (as they were at that moment), an uncaught exception, and
  the file system.
\<close>

record pm_state =
  msg :: message
  size_acc :: nat
  eml_sink :: "string option"
  att_sinks :: "string option list"
  parser_input :: string
  parser_end_called :: bool
  parser_ended :: bool
  drained :: bool
  completions :: "message list"
  thrown :: "error option"
  disk :: fsys

text \<open>
  The statements of \<^verbatim>\<open>parseMessage\<close> that run at the call (the same in both files). The
  envelope that \<^verbatim>\<open>handleDataStream\<close> builds has the keys from, to, host, remoteAddress.
\<close>

definition parseMessage_setup ::
  "outStreams \<Rightarrow> string \<Rightarrow> (string \<rightharpoonup> jsval) \<Rightarrow> fsys \<Rightarrow> pm_state" where
  "parseMessage_setup outs i envelope fs =
     (let r = os_emlStream outs fs;
          emlStream = emlret_emlStream (fst r)
      in \<lparr>msg = \<lparr>msg_id = i, props = envelope, attachments = Some [],
                  source = (if emlStream \<noteq> None then emlret_source (fst r) else None),
                  msg_size = None, sizeHuman = None, read = None\<rparr>,
          size_acc = 0, eml_sink = emlStream, att_sinks = [], parser_input = [],
          parser_end_called = False, parser_ended = False, drained = False,
          completions = [], thrown = None, disk = snd r\<rparr>)"

text \<open>
  A chunk of the inbound stream: the pipe to the raw sink (when there is one), the pipe
  to the parser, then the counting listener.
\<close>

definition on_inStream_data :: "string \<Rightarrow> pm_state \<Rightarrow> pm_state" where
  "on_inStream_data chunk s =
     s\<lparr>disk := (case eml_sink s of None \<Rightarrow> disk s | Some p \<Rightarrow> ws_write p chunk (disk s)),
       parser_input := parser_input s @ chunk,
       size_acc := size_acc s + length chunk\<rparr>"

text \<open>The end of the inbound stream as the two pipes see it: each ends its destination.\<close>

definition pipe_end :: "pm_state \<Rightarrow> pm_state" where
  "pipe_end s =
     s\<lparr>disk := (case eml_sink s of None \<Rightarrow> disk s | Some p \<Rightarrow> ws_end p (disk s)),
       parser_end_called := True,
       drained := True\<rparr>"

text \<open>\<^verbatim>\<open>src/lib/store.js\<close>, lines 88-94: the end listener invokes the callback.\<close>

definition on_inStream_end :: "(nat \<Rightarrow> string) \<Rightarrow> pm_state \<Rightarrow> pm_state" where
  "on_inStream_end formatBytes s =
     (let m = (msg s)\<lparr>msg_size := Some (size_acc s), sizeHuman := Some (formatBytes (size_acc s))\<rparr>
      in s\<lparr>disk := (case eml_sink s of None \<Rightarrow> disk s | Some p \<Rightarrow> ws_end p (disk s)),
           msg := m,
           completions := completions s @ [m]\<rparr>)"

text \<open>
  \<^verbatim>\<open>src/unnamed/part_002\<close>, lines 112-119 and 97-99: the end listener ends the parser,
  and the listener of the parser's end invokes the callback.
\<close>

definition on_inStream_end_p2 :: "(nat \<Rightarrow> string) \<Rightarrow> pm_state \<Rightarrow> pm_state" where
  "on_inStream_end_p2 formatBytes s =
     s\<lparr>msg := (msg s)\<lparr>msg_size := Some (size_acc s), sizeHuman := Some (formatBytes (size_acc s))\<rparr>,
       disk := (case eml_sink s of None \<Rightarrow> disk s | Some p \<Rightarrow> ws_end p (disk s)),
       parser_end_called := True\<rparr>"

definition on_parser_end_p2 :: "pm_state \<Rightarrow> pm_state" where
  "on_parser_end_p2 s = s\<lparr>completions := completions s @ [msg s]\<rparr>"

definition new_attachment :: "attachment_part \<Rightarrow> attachment" where
  "new_attachment d =
     \<lparr>generatedFileName = None, filename = p_filename d, contentType = p_contentType d,
      contentDisposition = p_contentDisposition d, checksum = p_checksum d,
      att_size = p_size d, att_headers = p_headers d, contentId = p_cid d,
      related = p_related d, att_source = None\<rparr>"

definition new_attachment_p2 :: "attachment_part \<Rightarrow> attachment" where
  "new_attachment_p2 d =
     \<lparr>generatedFileName = p_filename d, filename = p_filename d, contentType = p_contentType d,
      contentDisposition = p_contentDisposition d, checksum = p_checksum d,
      att_size = p_size d, att_headers = p_headers d, contentId = p_cid d,
      related = p_related d, att_source = None\<rparr>"

text \<open>
  The \<^verbatim>\<open>streamAttachments\<close> block, entered after the attachment was pushed: call the
  provider found under the property the variant names, store the \<^verbatim>\<open>source\<close> in the
  attachment just pushed, and pipe the content into the stream.
\<close>

definition open_attachment_sink ::
  "(attachment \<Rightarrow> fsys \<Rightarrow> (error + string option \<times> string option) \<times> fsys) option \<Rightarrow>
   attachment \<Rightarrow> pm_state \<Rightarrow> pm_state" where
  "open_attachment_sink provider att s =
     (case provider of
        None \<Rightarrow> s\<lparr>thrown := Some (TypeError ''the attachment stream provider is not a function'')\<rparr>
      | Some f \<Rightarrow>
          (case fst (f att (disk s)) of
             Inl e \<Rightarrow> s\<lparr>thrown := Some e, disk := snd (f att (disk s))\<rparr>
           | Inr r \<Rightarrow>
               (let xs = (case attachments (msg s) of None \<Rightarrow> [] | Some ys \<Rightarrow> ys);
                    s1 = s\<lparr>msg := (msg s)\<lparr>attachments :=
                                Some (xs[length xs - 1 := att\<lparr>att_source := fst r\<rparr>])\<rparr>,
                           disk := snd (f att (disk s))\<rparr>
                in case snd r of
                     None \<Rightarrow> s1\<lparr>thrown := Some (Error ''Do not ask for streamAttachments if no write stream can be opened'')\<rparr>
                   | Some p \<Rightarrow> s1\<lparr>att_sinks := att_sinks s1 @ [Some p]\<rparr>)))"

definition on_attachment ::
  "outStreams \<Rightarrow> bool \<Rightarrow> attachment_part \<Rightarrow> pm_state \<Rightarrow> pm_state" where
  "on_attachment outs streamAttachments d s =
     (case attachments (msg s) of
        None \<Rightarrow> s\<lparr>thrown := Some (TypeError ''Cannot read properties of undefined'')\<rparr>
      | Some xs \<Rightarrow>
          (let att = new_attachment d;
               s1 = s\<lparr>msg := (msg s)\<lparr>attachments := Some (xs @ [att])\<rparr>\<rparr>
           in if streamAttachments
              then open_attachment_sink (os_attachmentWriteStream outs) att s1
              else s1\<lparr>att_sinks := att_sinks s1 @ [None]\<rparr>))"

definition on_attachment_p2 ::
  "outStreams \<Rightarrow> bool \<Rightarrow> attachment_part \<Rightarrow> pm_state \<Rightarrow> pm_state" where
  "on_attachment_p2 outs streamAttachments d s =
     (case attachments (msg s) of
        None \<Rightarrow> s\<lparr>thrown := Some (TypeError ''Cannot read properties of undefined'')\<rparr>
      | Some xs \<Rightarrow>
          (let att = new_attachment_p2 d;
               s1 = s\<lparr>msg := (msg s)\<lparr>attachments := Some (xs @ [att])\<rparr>\<rparr>
           in if streamAttachments
              then open_attachment_sink (os_attachmentStream outs) att s1
              else s1\<lparr>att_sinks := att_sinks s1 @ [None]\<rparr>))"

definition set_props :: "error + (string \<rightharpoonup> jsval) \<Rightarrow> pm_state \<Rightarrow> pm_state" where
  "set_props r s =
     (case r of
        Inl e \<Rightarrow> s\<lparr>thrown := Some e\<rparr>
      | Inr p \<Rightarrow> s\<lparr>msg := (msg s)\<lparr>props := p\<rparr>\<rparr>)"

definition on_content_data :: "nat \<Rightarrow> string \<Rightarrow> pm_state \<Rightarrow> pm_state" where
  "on_content_data k chunk s =
     (if k < length (att_sinks s)
      then (case att_sinks s ! k of None \<Rightarrow> s | Some p \<Rightarrow> s\<lparr>disk := ws_write p chunk (disk s)\<rparr>)
      else s)"

definition on_content_end :: "nat \<Rightarrow> pm_state \<Rightarrow> pm_state" where
  "on_content_end k s =
     (if k < length (att_sinks s)
      then (case att_sinks s ! k of None \<Rightarrow> s | Some p \<Rightarrow> s\<lparr>disk := ws_end p (disk s)\<rparr>)
      else s)"

text \<open>
  One event handled by the listeners of \<^verbatim>\<open>src/lib/store.js\<close>. That file registers no
  listener for the parser's end. \<open>formatBytes\<close> is \<^verbatim>\<open>utils.formatBytes\<close>, a parameter.
\<close>

fun step :: "outStreams \<Rightarrow> bool \<Rightarrow> (nat \<Rightarrow> string) \<Rightarrow> event \<Rightarrow> pm_state \<Rightarrow> pm_state" where
  "step outs sa fb (InData chunk) s = on_inStream_data chunk s"
| "step outs sa fb InEnd s = on_inStream_end fb (pipe_end s)"
| "step outs sa fb (ParserHeaders headers now) s = set_props (on_headers headers now (props (msg s))) s"
| "step outs sa fb (ParserData (AttachmentPart d)) s = on_attachment outs sa d s"
| "step outs sa fb (ParserData (TextPart d)) s = set_props (on_text d (props (msg s))) s"
| "step outs sa fb (ParserData OtherPart) s = s"
| "step outs sa fb (ContentData k chunk) s = on_content_data k chunk s"
| "step outs sa fb (ContentEnd k) s = on_content_end k s"
| "step outs sa fb ParserEnd s = s\<lparr>parser_ended := True\<rparr>"

text \<open>One event handled by the listeners of \<^verbatim>\<open>src/unnamed/part_002\<close>.\<close>

fun step_p2 ::
  "(jsval \<Rightarrow> string list \<Rightarrow> jsval) \<Rightarrow> outStreams \<Rightarrow> bool \<Rightarrow> (nat \<Rightarrow> string) \<Rightarrow> event \<Rightarrow> pm_state \<Rightarrow> pm_state" where
  "step_p2 st outs sa fb (InData chunk) s = on_inStream_data chunk s"
| "step_p2 st outs sa fb InEnd s = on_inStream_end_p2 fb (pipe_end s)"
| "step_p2 st outs sa fb (ParserHeaders headers now) s = set_props (on_headers_p2 headers now (props (msg s))) s"
| "step_p2 st outs sa fb (ParserData (AttachmentPart d)) s = on_attachment_p2 outs sa d s"
| "step_p2 st outs sa fb (ParserData (TextPart d)) s = set_props (on_text_p2 st d (props (msg s))) s"
| "step_p2 st outs sa fb (ParserData OtherPart) s = s"
| "step_p2 st outs sa fb (ContentData k chunk) s = on_content_data k chunk s"
| "step_p2 st outs sa fb (ContentEnd k) s = on_content_end k s"
| "step_p2 st outs sa fb ParserEnd s = on_parser_end_p2 (s\<lparr>parser_ended := True\<rparr>)"

text \<open>The events in the order they are delivered; an uncaught exception ends the run.\<close>

fun run :: "(event \<Rightarrow> pm_state \<Rightarrow> pm_state) \<Rightarrow> event list \<Rightarrow> pm_state \<Rightarrow> pm_state" where
  "run stp [] s = s"
| "run stp (e # es) s = (if thrown s \<noteq> None then s else run stp es (stp e s))"

section \<open>Store: registration of a new message\<close>

text \<open>\<^verbatim>\<open>String(x)\<close> as string concatenation applies it: \<^verbatim>\<open>undefined\<close> reads "undefined".\<close>

definition js_string :: "string option \<Rightarrow> string" where
  "js_string x = (case x of None \<Rightarrow> ''undefined'' | Some v \<Rightarrow> v)"

definition emlPath :: "store \<Rightarrow> string option \<Rightarrow> string" where
  "emlPath st i = path_join (mailDir st) (js_string i @ ''.eml'')"

definition emlWriteStream :: "store \<Rightarrow> string option \<Rightarrow> fsys \<Rightarrow> emlret \<times> fsys" where
  "emlWriteStream st i fs = (WriteStream (emlPath st i), createWriteStream (emlPath st i) fs)"

text \<open>\<^verbatim>\<open>path.join\<close> raises a TypeError for an argument that is not a string.\<close>

definition attachmentDir :: "store \<Rightarrow> string option \<Rightarrow> error + string" where
  "attachmentDir st i =
     (case i of
        None \<Rightarrow> Inl (TypeError ''The path argument must be of type string'')
      | Some d \<Rightarrow> Inr (path_join (mailDir st) d))"

definition mkdir_if_absent :: "string \<Rightarrow> fsys \<Rightarrow> fsys" where
  "mkdir_if_absent dir fs = (if dir \<in> dirs fs then fs else fs\<lparr>dirs := insert dir (dirs fs)\<rparr>)"

text \<open>
  \<^verbatim>\<open>attachmentWriteStream\<close> of \<^verbatim>\<open>src/lib/store.js\<close> (lines 245-252) calls
  \<^verbatim>\<open>this.attachmentDir()\<close> with no id.
\<close>

definition attachmentWriteStream ::
  "store \<Rightarrow> attachment \<Rightarrow> fsys \<Rightarrow> (error + string option \<times> string option) \<times> fsys" where
  "attachmentWriteStream st att fs =
     (case attachmentDir st None of
        Inl e \<Rightarrow> (Inl e, fs)
      | Inr dir \<Rightarrow>
          (case contentId att of
             None \<Rightarrow> (Inl (TypeError ''The path argument must be of type string''), mkdir_if_absent dir fs)
           | Some c \<Rightarrow>
               (Inr (Some (path_join dir c), Some (path_join dir c)),
                createWriteStream (path_join dir c) (mkdir_if_absent dir fs))))"

text \<open>
  \<^verbatim>\<open>src/lib/store.js\<close>, lines 254-268: \<^verbatim>\<open>outStreams\<close> has the properties \<^verbatim>\<open>emlStream\<close> (the
  bound \<^verbatim>\<open>emlWriteStream\<close>, later called with no argument) and \<^verbatim>\<open>attachmentStream\<close>.
\<close>

definition outStreams_of :: "store \<Rightarrow> outStreams" where
  "outStreams_of st =
     \<lparr>os_emlStream = emlWriteStream st None,
      os_attachmentStream = Some (attachmentWriteStream st),
      os_attachmentWriteStream = None\<rparr>"

text \<open>\<^verbatim>\<open>src/unnamed/part_002\<close>, lines 266-281: both providers are closures over the id.\<close>

definition outStreams_p2 :: "store \<Rightarrow> string \<Rightarrow> outStreams" where
  "outStreams_p2 st i =
     \<lparr>os_emlStream =
        (\<lambda>fs. (WriteStream (path_join (mailDir st) (i @ ''.eml'')),
               createWriteStream (path_join (mailDir st) (i @ ''.eml'')) fs)),
      os_attachmentStream =
        Some (\<lambda>att fs.
          (let dir = path_join (mailDir st) i
           in case generatedFileName att of
                None \<Rightarrow> (Inl (TypeError ''The path argument must be of type string''), mkdir_if_absent dir fs)
              | Some g \<Rightarrow>
                  (Inr (Some (path_join dir g), Some (path_join dir g)),
                   createWriteStream (path_join dir g) (mkdir_if_absent dir fs)))),
      os_attachmentWriteStream = None\<rparr>"

text \<open>
  \<^verbatim>\<open>handleNewMessage\<close>: the assembly is started with \<^verbatim>\<open>streamAttachments: true\<close>, the
  events of the message are delivered, and every invocation of the completion callback
  pushes the \<^verbatim>\<open>message\<close> object onto \<^verbatim>\<open>this.messages\<close>. No check for a record with the same
  id is made. The index holds the object itself, not a copy: what the listeners write to
  it after the callback shows in the index, so the store returned, the one after all the
  events, holds the message as the events have left it.
\<close>

definition handleNewMessage ::
  "(nat \<Rightarrow> string) \<Rightarrow> store \<Rightarrow> string \<Rightarrow> (string \<rightharpoonup> jsval) \<Rightarrow> event list \<Rightarrow> fsys \<Rightarrow> store \<times> pm_state" where
  "handleNewMessage formatBytes st i envelope events fs =
     (let s = run (step (outStreams_of st) True formatBytes) events
                (parseMessage_setup (outStreams_of st) i envelope fs)
      in (st\<lparr>messages := messages st @ map (\<lambda>m. msg s) (completions s)\<rparr>, s))"

definition handleNewMessage_p2 ::
  "(jsval \<Rightarrow> string list \<Rightarrow> jsval) \<Rightarrow> (nat \<Rightarrow> string) \<Rightarrow> store \<Rightarrow> string \<Rightarrow> (string \<rightharpoonup> jsval) \<Rightarrow>
   event list \<Rightarrow> fsys \<Rightarrow> store \<times> pm_state" where
  "handleNewMessage_p2 stripTags formatBytes st i envelope events fs =
     (let s = run (step_p2 stripTags (outStreams_p2 st i) True formatBytes) events
                (parseMessage_setup (outStreams_p2 st i) i envelope fs)
      in (st\<lparr>messages := messages st @ map (\<lambda>m. msg s) (completions s)\<rparr>, s))"

section \<open>The mail server facade\<close>

definition getEmail :: "store \<Rightarrow> string \<Rightarrow> error + message" where
  "getEmail st i = emailById st i"

definition getRawEmail :: "store \<Rightarrow> string \<Rightarrow> stream outcome" where
  "getRawEmail st i = emailStreamById st i"

definition getEmailAttachment :: "store \<Rightarrow> string \<Rightarrow> string \<Rightarrow> (string option \<times> stream) outcome" where
  "getEmailAttachment st i fname = emailAttachmentStreamById st i fname"

definition getAllEmail :: "store \<Rightarrow> message list outcome" where
  "getAllEmail st = CbOk (allEmails st)"

definition readAllEmail :: "store \<Rightarrow> store \<times> nat outcome" where
  "readAllEmail st = markAllEmailRead st"

text \<open>
  \<^verbatim>\<open>deleteAllEmail\<close> calls \<^verbatim>\<open>store.deleteAll()\<close> with no callback and reports success at
  once; the sweep of the directory runs in a later callback, whose outcome is kept apart.
\<close>

definition deleteAllEmail ::
  "store \<Rightarrow> fsys \<Rightarrow> error + string list \<Rightarrow> store \<times> fsys \<times> unit outcome \<times> bool outcome" where
  "deleteAllEmail st fs listing =
     (let r = deleteAll st fs listing
      in (fst r, fst (snd r), snd (snd r), CbOk True))"

text \<open>
  \<^verbatim>\<open>encodeURIComponent\<close> on a string of bytes: the unreserved characters stay, every
  other byte becomes a percent sign and two upper-case hexadecimal digits.
\<close>

definition unreserved :: "char \<Rightarrow> bool" where
  "unreserved c =
     (c \<in> set ''ABCDEFGHIJKLMNOPQRSTUVWXYZabcdefghijklmnopqrstuvwxyz0123456789-_.!~*()'' \<or> c = CHR 0x27)"

definition hex_digit :: "nat \<Rightarrow> char" where
  "hex_digit n = ''0123456789ABCDEF'' ! n"

definition encodeURIComponent :: "string \<Rightarrow> string" where
  "encodeURIComponent s =
     concat (map (\<lambda>c. if unreserved c then [c]
                      else [CHR ''%'', hex_digit (of_char c div 16), hex_digit (of_char c mod 16)]) s)"

definition getFileUrl :: "string \<Rightarrow> string option \<Rightarrow> string option \<Rightarrow> string" where
  "getFileUrl i baseUrl fname =
     (case baseUrl of None \<Rightarrow> [] | Some b \<Rightarrow> b) @ ''/email/'' @ i @ ''/attachment/'' @
     encodeURIComponent (js_string fname)"

text \<open>
  The source text of the regular expression that \<^verbatim>\<open>getEmailHTML\<close> builds for a content id:
  \<^verbatim>\<open>src=\<close>, a group of the two quote characters, \<^verbatim>\<open>cid:\<close>, the content id, the group again.
\<close>

definition cid_pattern :: "string \<Rightarrow> string" where
  "cid_pattern cid =
     ''src=('' @ [CHR 0x22] @ ''|'' @ [CHR 0x27] @ '')cid:'' @ cid @
     ''('' @ [CHR 0x22] @ ''|'' @ [CHR 0x27] @ '')''"

text \<open>
  The \<^verbatim>\<open>forEach\<close> over the embedded attachments. \<open>replace_g pattern replacement subject\<close> is
  the language's \<^verbatim>\<open>subject.replace(new RegExp(pattern, 'g'), replacement)\<close>, a parameter
  (it raises for a pattern that is no regular expression). Calling \<^verbatim>\<open>replace\<close> on an
  \<^verbatim>\<open>html\<close> that is not a string raises a TypeError.
\<close>

fun replace_each ::
  "(string \<Rightarrow> string \<Rightarrow> string \<Rightarrow> error + string) \<Rightarrow> string \<Rightarrow> string option \<Rightarrow>
   attachment list \<Rightarrow> jsval \<Rightarrow> error + jsval" where
  "replace_each replace_g i baseUrl [] html = Inr html"
| "replace_each replace_g i baseUrl (a # rest) html =
     (case html of
        JStr h \<Rightarrow>
          (case replace_g (cid_pattern (js_string (contentId a)))
                  (''src='' @ [CHR 0x22] @ getFileUrl i baseUrl (generatedFileName a) @ [CHR 0x22]) h of
             Inl e \<Rightarrow> Inl e
           | Inr h' \<Rightarrow> replace_each replace_g i baseUrl rest (JStr h'))
      | JUndefined \<Rightarrow> Inl (TypeError ''Cannot read properties of undefined'')
      | JNull \<Rightarrow> Inl (TypeError ''Cannot read properties of null'')
      | other \<Rightarrow> Inl (TypeError ''html.replace is not a function''))"

definition getEmailHTML ::
  "(string \<Rightarrow> string \<Rightarrow> string \<Rightarrow> error + string) \<Rightarrow> store \<Rightarrow> string \<Rightarrow> string option \<Rightarrow> jsval outcome" where
  "getEmailHTML replace_g st i baseUrl0 =
     (let baseUrl = (case baseUrl0 of
                       None \<Rightarrow> None
                     | Some b \<Rightarrow> if b = [] then Some b else Some (''//'' @ b))
      in case getEmail st i of
           Inl err \<Rightarrow> CbErr err
         | Inr email \<Rightarrow>
             (let html = prop_of (props email) ''html''
              in case attachments email of
                   None \<Rightarrow> CbOk html
                 | Some atts \<Rightarrow>
                     (case replace_each replace_g i baseUrl
                             (filter (\<lambda>a. contentId a \<noteq> None \<and> contentId a \<noteq> Some []) atts) html of
                        Inl e \<Rightarrow> Threw e
                      | Inr h \<Rightarrow> CbOk h)))"

text \<open>
  \<^verbatim>\<open>relayMail(idOrMailObject, isAutoRelay, done)\<close>. The module \<^verbatim>\<open>./outgoing\<close> is not among the
  sources: \<open>enabled\<close> is the value of \<^verbatim>\<open>outgoing.isEnabled()\<close> and \<open>outgoing_relayMail\<close> is
  \<^verbatim>\<open>outgoing.relayMail\<close>. An id (\<open>Inl\<close>) is resolved with \<^verbatim>\<open>getEmail\<close> and the mail object is
  relayed with \<^verbatim>\<open>isAutoRelay\<close> false.
\<close>

definition relay_object ::
  "(message \<Rightarrow> stream \<Rightarrow> bool \<Rightarrow> 'r outcome) \<Rightarrow> store \<Rightarrow> message \<Rightarrow> bool \<Rightarrow> 'r outcome" where
  "relay_object outgoing_relayMail st mail isAutoRelay =
     (case getRawEmail st (msg_id mail) of
        CbErr err \<Rightarrow> CbErr err
      | CbOk rawEmailStream \<Rightarrow> outgoing_relayMail mail rawEmailStream isAutoRelay
      | Threw e \<Rightarrow> Threw e
      | NoCall \<Rightarrow> NoCall)"

definition relayMail ::
  "bool \<Rightarrow> (message \<Rightarrow> stream \<Rightarrow> bool \<Rightarrow> 'r outcome) \<Rightarrow> store \<Rightarrow> string + message \<Rightarrow> bool \<Rightarrow> 'r outcome" where
  "relayMail enabled outgoing_relayMail st idOrMailObject isAutoRelay =
     (if \<not> enabled then CbErr (Error ''Outgoing mail not configured'')
      else
        (case idOrMailObject of
           Inl i \<Rightarrow>
             (case getEmail st i of
                Inl err \<Rightarrow> CbErr err
              | Inr email \<Rightarrow> relay_object outgoing_relayMail st email False)
         | Inr mail \<Rightarrow> relay_object outgoing_relayMail st mail isAutoRelay))"

section \<open>Inputs used in the evaluations below\<close>

definition example_message :: "string \<Rightarrow> bool option \<Rightarrow> message" where
  "example_message i r =
     \<lparr>msg_id = i, props = Map.empty, attachments = Some [], source = None,
      msg_size = Some 5, sizeHuman = Some ''5 B'', read = r\<rparr>"

definition example_fs :: fsys where
  "example_fs = \<lparr>files = Map.empty, dirs = {''/tmp/maildev''}, open_ws = []\<rparr>"

text \<open>A root directory that holds the raw file and the attachment of the message "m1".\<close>

definition example_disk :: fsys where
  "example_disk =
     \<lparr>files = [''/tmp/maildev/m1.eml'' \<mapsto> ''Hello'', ''/tmp/maildev/m1/logo.png'' \<mapsto> ''PNG''],
      dirs = {''/tmp/maildev'', ''/tmp/maildev/m1''}, open_ws = []\<rparr>"

definition example_attachment :: attachment where
  "example_attachment =
     \<lparr>generatedFileName = Some ''logo.png'', filename = Some ''logo.png'',
      contentType = Some ''image/png'', contentDisposition = Some ''inline'',
      checksum = None, att_size = Some 3, att_headers = JObj ''headers'',
      contentId = Some ''logo1'', related = Some True,
      att_source = Some ''/tmp/maildev/m1/logo.png''\<rparr>"

definition example_with_attachment :: message where
  "example_with_attachment =
     \<lparr>msg_id = ''m1'', props = [''html'' \<mapsto> JStr ''<img src=cid:logo1>''],
      attachments = Some [example_attachment],
      source = None, msg_size = Some 5, sizeHuman = Some ''5 B'', read = None\<rparr>"

definition example_store :: store where
  "example_store = \<lparr>mailDir = ''/tmp/maildev'', messages = []\<rparr>"

definition example_envelope :: "string \<rightharpoonup> jsval" where
  "example_envelope =
     [''from'' \<mapsto> JObj ''envelope mailFrom'', ''to'' \<mapsto> JObj ''envelope rcptTo'',
      ''host'' \<mapsto> JStr ''client.example'', ''remoteAddress'' \<mapsto> JStr ''127.0.0.1'']"

definition example_headers :: "string \<rightharpoonup> jsval" where
  "example_headers = [''sender'' \<mapsto> JObj ''Alice'', ''subject'' \<mapsto> JStr ''Hi'']"

definition example_text :: "string \<rightharpoonup> jsval" where
  "example_text =
     [''type'' \<mapsto> JStr ''text'', ''text'' \<mapsto> JStr ''Hello'',
      ''html'' \<mapsto> JStr ''<p>Hello</p><script>x()</script>'',
      ''textAsHtml'' \<mapsto> JStr ''<p>Hello</p>'']"

definition example_part :: attachment_part where
  "example_part =
     \<lparr>p_filename = Some ''logo.png'', p_contentType = Some ''image/png'',
      p_contentDisposition = Some ''inline'', p_checksum = None, p_size = Some 3,
      p_headers = JObj ''headers'', p_cid = Some ''logo1'', p_related = Some True\<rparr>"

text \<open>
  The assembly of a message with the id "m1" in a store rooted at /tmp/maildev, by
  \<^verbatim>\<open>handleNewMessage\<close> of \<^verbatim>\<open>src/lib/store.js\<close> and of \<^verbatim>\<open>src/unnamed/part_002\<close>.
\<close>

definition example_run :: "(nat \<Rightarrow> string) \<Rightarrow> event list \<Rightarrow> pm_state" where
  "example_run formatBytes events =
     snd (handleNewMessage formatBytes example_store ''m1'' example_envelope events example_fs)"

definition example_run_p2 ::
  "(jsval \<Rightarrow> string list \<Rightarrow> jsval) \<Rightarrow> (nat \<Rightarrow> string) \<Rightarrow> event list \<Rightarrow> pm_state" where
  "example_run_p2 stripTags formatBytes events =
     snd (handleNewMessage_p2 stripTags formatBytes example_store ''m1'' example_envelope events example_fs)"

definition example_html :: string where
  "example_html = ''<p>Hello</p><img src='cid:logo1'>''"

text \<open>
  A message with an inline image: the inbound stream delivers one chunk and ends, then
  the parser emits the text part, whose html refers to the content id of the image, and
  the attachment part. \<^verbatim>\<open>src/unnamed/part_002\<close> goes on to the content of the attachment,
  its end, and the end of the parser.
\<close>

definition example_inline_text :: "string \<rightharpoonup> jsval" where
  "example_inline_text =
     [''type'' \<mapsto> JStr ''text'', ''text'' \<mapsto> JStr ''Hello'', ''html'' \<mapsto> JStr example_html]"

definition example_inline_events :: "event list" where
  "example_inline_events =
     [InData ''Hello'', InEnd, ParserData (TextPart example_inline_text),
      ParserData (AttachmentPart example_part)]"

definition example_inline_events_p2 :: "event list" where
  "example_inline_events_p2 =
     example_inline_events @ [ContentData 0 ''PNG'', ContentEnd 0, ParserEnd]"

text \<open>The index after the assembly of the message "m1", in the two store files.\<close>

definition example_index :: "(nat \<Rightarrow> string) \<Rightarrow> event list \<Rightarrow> store" where
  "example_index formatBytes events =
     fst (handleNewMessage formatBytes example_store ''m1'' example_envelope events example_fs)"

definition example_index_p2 ::
  "(jsval \<Rightarrow> string list \<Rightarrow> jsval) \<Rightarrow> (nat \<Rightarrow> string) \<Rightarrow> event list \<Rightarrow> store" where
  "example_index_p2 stripTags formatBytes events =
     fst (handleNewMessage_p2 stripTags formatBytes example_store ''m1'' example_envelope events example_fs)"

text \<open>Whether an operation ended by invoking the callback it was given.\<close>

fun invoked_callback :: "'a outcome \<Rightarrow> bool" where
  "invoked_callback (CbErr e) = True"
| "invoked_callback (CbOk v) = True"
| "invoked_callback (Threw e) = False"
| "invoked_callback NoCall = False"

section \<open>Lookup by id\<close>

lemma emailById_duplicates:
  "2 \<le> length (filter (\<lambda>m. msg_id m = i) (messages st)) \<Longrightarrow>
   emailById st i = Inl (Error ''Email was not found'')"
  by (simp add: emailById_def Let_def)

lemma emailById_unique:
  "filter (\<lambda>m. msg_id m = i) (messages st) = [email] \<Longrightarrow> emailById st i = Inr email"
  by (simp add: emailById_def Let_def)

lemma emailById_absent:
  "filter (\<lambda>m. msg_id m = i) (messages st) = [] \<Longrightarrow>
   emailById st i = Inl (Error ''Email was not found'')"
  by (simp add: emailById_def Let_def)

lemma setup_thrown: "thrown (parseMessage_setup outs i envelope fs) = None"
  by (simp add: parseMessage_setup_def Let_def)

lemma setup_completions: "completions (parseMessage_setup outs i envelope fs) = []"
  by (simp add: parseMessage_setup_def Let_def)

lemma setup_msg_id: "msg_id (msg (parseMessage_setup outs i envelope fs)) = i"
  by (simp add: parseMessage_setup_def Let_def)

lemma registered_at_stream_end:
  "map msg_id (map (\<lambda>m. msg (run (step outs sa fb) [InEnd] (parseMessage_setup outs i envelope fs)))
     (completions (run (step outs sa fb) [InEnd] (parseMessage_setup outs i envelope fs)))) = [i]"
  by (simp add: setup_thrown setup_completions setup_msg_id on_inStream_end_def pipe_end_def Let_def)

lemma registered_at_parser_end_p2:
  "map msg_id (map (\<lambda>m. msg (run (step_p2 sT outs sa fb) [InEnd, ParserEnd]
                           (parseMessage_setup outs i envelope fs)))
     (completions (run (step_p2 sT outs sa fb) [InEnd, ParserEnd]
      (parseMessage_setup outs i envelope fs)))) = [i]"
  by (simp add: setup_thrown setup_completions setup_msg_id on_inStream_end_p2_def
      on_parser_end_p2_def pipe_end_def Let_def)

lemma count_after_append:
  "map msg_id cs = [i] \<Longrightarrow>
   length (filter (\<lambda>m. msg_id m = i) (ms @ cs)) = length (filter (\<lambda>m. msg_id m = i) ms) + 1"
  by (cases cs) auto

text \<open>
  C10. When two or more records of the index share an id, \<^verbatim>\<open>emailById\<close> reports
  "Email was not found" and returns none of them, and so does every operation that
  resolves the id through it: \<^verbatim>\<open>getEmail\<close>, the raw stream, the attachment stream (of
  either store file), the html rendering, and the relay of an id once the relay has
  passed its own check that outgoing mail is configured (\<open>enabled\<close> is \<open>True\<close>; with
  outgoing mail not configured \<^verbatim>\<open>relayMail\<close> reports that before it looks anything up).
  Registration does not prevent such a state: a message completed under an id the index
  already holds is appended, in either store file, and the id is then held twice.
\<close>

theorem duplicate_id_is_not_found:
  "(2 \<le> length (filter (\<lambda>m. msg_id m = i) (messages st)) \<longrightarrow>
      emailById st i = Inl (Error ''Email was not found'')
    \<and> getEmail st i = Inl (Error ''Email was not found'')
    \<and> getRawEmail st i = CbErr (Error ''Email was not found'')
    \<and> getEmailAttachment st i fname = CbErr (Error ''Email was not found'')
    \<and> emailAttachmentStreamById_p2 st i fname = CbErr (Error ''Email was not found'')
    \<and> getEmailHTML replace_g st i baseUrl = CbErr (Error ''Email was not found'')
    \<and> relayMail True outgoing_relayMail st (Inl i) isAutoRelay = CbErr (Error ''Email was not found''))
   \<and> (1 \<le> length (filter (\<lambda>m. msg_id m = i) (messages st)) \<longrightarrow>
      2 \<le> length (filter (\<lambda>m. msg_id m = i)
             (messages (fst (handleNewMessage formatBytes st i envelope [InEnd] fs))))
    \<and> 2 \<le> length (filter (\<lambda>m. msg_id m = i)
             (messages (fst (handleNewMessage_p2 stripTags formatBytes st i envelope [InEnd, ParserEnd] fs)))))"
proof (intro conjI impI)
  assume dup: "2 \<le> length (filter (\<lambda>m. msg_id m = i) (messages st))"
  then show e: "emailById st i = Inl (Error ''Email was not found'')"
    by (rule emailById_duplicates)
  show "getEmail st i = Inl (Error ''Email was not found'')"
    by (simp add: getEmail_def e)
  show "getRawEmail st i = CbErr (Error ''Email was not found'')"
    by (simp add: getRawEmail_def emailStreamById_def e)
  show "getEmailAttachment st i fname = CbErr (Error ''Email was not found'')"
    by (simp add: getEmailAttachment_def emailAttachmentStreamById_def e)
  show "emailAttachmentStreamById_p2 st i fname = CbErr (Error ''Email was not found'')"
    by (simp add: emailAttachmentStreamById_p2_def e)
  show "getEmailHTML replace_g st i baseUrl = CbErr (Error ''Email was not found'')"
    by (simp add: getEmailHTML_def getEmail_def e Let_def)
  show "relayMail True outgoing_relayMail st (Inl i) isAutoRelay = CbErr (Error ''Email was not found'')"
    by (simp add: relayMail_def getEmail_def e)
next
  assume one: "1 \<le> length (filter (\<lambda>m. msg_id m = i) (messages st))"
  show "2 \<le> length (filter (\<lambda>m. msg_id m = i)
             (messages (fst (handleNewMessage formatBytes st i envelope [InEnd] fs))))"
    using one count_after_append [OF registered_at_stream_end]
    by (simp add: handleNewMessage_def Let_def)
  show "2 \<le> length (filter (\<lambda>m. msg_id m = i)
             (messages (fst (handleNewMessage_p2 stripTags formatBytes st i envelope [InEnd, ParserEnd] fs))))"
    using one count_after_append [OF registered_at_parser_end_p2]
    by (simp add: handleNewMessage_p2_def Let_def)
qed

text \<open>
  C10, at a store that holds the id "a" twice, and at a store that holds it once and
  registers a second message under it.
\<close>

theorem duplicate_id_is_not_found_witness:
  "emailById \<lparr>mailDir = ''/tmp/maildev'',
              messages = [example_message ''a'' None, example_message ''a'' None]\<rparr> ''a''
     = Inl (Error ''Email was not found'')
   \<and> getRawEmail \<lparr>mailDir = ''/tmp/maildev'',
              messages = [example_message ''a'' None, example_message ''a'' None]\<rparr> ''a''
     = CbErr (Error ''Email was not found'')
   \<and> getEmailHTML (\<lambda>p r h. Inr h) \<lparr>mailDir = ''/tmp/maildev'',
              messages = [example_message ''a'' None, example_message ''a'' None]\<rparr> ''a'' None
     = CbErr (Error ''Email was not found'')
   \<and> 2 \<le> length (filter (\<lambda>m. msg_id m = ''a'')
          (messages (fst (handleNewMessage (\<lambda>n. ''0 B'')
             \<lparr>mailDir = ''/tmp/maildev'', messages = [example_message ''a'' None]\<rparr>
             ''a'' Map.empty [InEnd] example_fs))))"
  using duplicate_id_is_not_found
    [of "''a''" "\<lparr>mailDir = ''/tmp/maildev'',
              messages = [example_message ''a'' None, example_message ''a'' None]\<rparr>"
        "''x''" "\<lambda>p r h. Inr h" None "\<lambda>m s b. NoCall :: unit outcome" False "\<lambda>n. ''0 B''" Map.empty example_fs "\<lambda>v t. v"]
    duplicate_id_is_not_found
    [of "''a''" "\<lparr>mailDir = ''/tmp/maildev'', messages = [example_message ''a'' None]\<rparr>"
        "''x''" "\<lambda>p r h. Inr h" None "\<lambda>m s b. NoCall :: unit outcome" False "\<lambda>n. ''0 B''" Map.empty example_fs "\<lambda>v t. v"]
  by (simp add: example_message_def)

section \<open>Read state\<close>

lemma markAllEmailRead_loop_eq:
  "markAllEmailRead_loop ms count =
     (map (\<lambda>m. if read m = Some True then m else m\<lparr>read := Some True\<rparr>) ms,
      count + length (filter (\<lambda>m. read m \<noteq> Some True) ms))"
  by (induction ms arbitrary: count) (simp_all add: Let_def)

lemma marked_nothing_unread:
  "filter (\<lambda>m. read m \<noteq> Some True)
     (map (\<lambda>m. if read m = Some True then m else m\<lparr>read := Some True\<rparr>) ms) = []"
  by (induction ms) simp_all

text \<open>
  C6. \<^verbatim>\<open>markAllEmailRead\<close> sets \<open>read\<close> to true on exactly the records whose flag was not
  already true and leaves every other record, and the rest of the store, as it was; it
  reports the number of records it changed; run again on the store it has produced, it
  reports 0 and changes nothing.
\<close>

theorem markAllEmailRead_marks_and_counts:
  "messages (fst (markAllEmailRead st)) =
     map (\<lambda>m. if read m = Some True then m else m\<lparr>read := Some True\<rparr>) (messages st)
   \<and> snd (markAllEmailRead st) = CbOk (length (filter (\<lambda>m. read m \<noteq> Some True) (messages st)))
   \<and> mailDir (fst (markAllEmailRead st)) = mailDir st
   \<and> snd (markAllEmailRead (fst (markAllEmailRead st))) = CbOk 0
   \<and> fst (markAllEmailRead (fst (markAllEmailRead st))) = fst (markAllEmailRead st)"
proof -
  let ?f = "\<lambda>m. if read m = Some True then m else m\<lparr>read := Some True\<rparr>"
  have idem: "map ?f (map ?f ms) = map ?f ms" for ms :: "message list"
    by (induction ms) simp_all
  show ?thesis
    by (simp add: markAllEmailRead_def Let_def markAllEmailRead_loop_eq marked_nothing_unread idem)
qed

text \<open>
  C6, at a store of three records whose flags are absent, true and false: two records
  are changed, all three end up read, and a second run changes none.
\<close>

theorem markAllEmailRead_witness:
  "snd (markAllEmailRead \<lparr>mailDir = ''/tmp/maildev'',
          messages = [example_message ''a'' None, example_message ''b'' (Some True),
                      example_message ''c'' (Some False)]\<rparr>) = CbOk 2
   \<and> map read (messages (fst (markAllEmailRead \<lparr>mailDir = ''/tmp/maildev'',
          messages = [example_message ''a'' None, example_message ''b'' (Some True),
                      example_message ''c'' (Some False)]\<rparr>))) = [Some True, Some True, Some True]
   \<and> snd (markAllEmailRead (fst (markAllEmailRead \<lparr>mailDir = ''/tmp/maildev'',
          messages = [example_message ''a'' None, example_message ''b'' (Some True),
                      example_message ''c'' (Some False)]\<rparr>))) = CbOk 0"
  using markAllEmailRead_marks_and_counts
    [of "\<lparr>mailDir = ''/tmp/maildev'',
          messages = [example_message ''a'' None, example_message ''b'' (Some True),
                      example_message ''c'' (Some False)]\<rparr>"]
  by (simp add: example_message_def)

section \<open>Deletion\<close>

lemma deleteById_keeps_index: "fst (deleteById st i) = st"
  by (simp add: deleteById_def split: option.splits)

lemma deleteById_first_position:
  "messages st = m # ms \<Longrightarrow> msg_id m = i \<Longrightarrow>
   deleteById st i = (st, CbErr (Error ''Email not found''))"
  by (simp add: deleteById_def)

text \<open>
  C2. The claim asks that \<^verbatim>\<open>deleteById\<close> remove every record that is present, the one at
  position 0 included. In a store of two records "a" and "b", deleting "a" (position 0)
  is answered with "Email not found" and the store keeps both records; deleting "b"
  ends in the ReferenceError of the unbound \<^verbatim>\<open>rimraf\<close>, again with both records kept.
\<close>

theorem deleteById_index_zero_not_found:
  "deleteById \<lparr>mailDir = ''/tmp/maildev'',
               messages = [example_message ''a'' None, example_message ''b'' None]\<rparr> ''a''
     = (\<lparr>mailDir = ''/tmp/maildev'',
          messages = [example_message ''a'' None, example_message ''b'' None]\<rparr>,
        CbErr (Error ''Email not found''))
   \<and> deleteById \<lparr>mailDir = ''/tmp/maildev'',
               messages = [example_message ''a'' None, example_message ''b'' None]\<rparr> ''b''
     = (\<lparr>mailDir = ''/tmp/maildev'',
          messages = [example_message ''a'' None, example_message ''b'' None]\<rparr>,
        Threw (ReferenceError ''rimraf is not defined''))"
  by (simp add: deleteById_def example_message_def)

text \<open>
  Whatever the listing of the directory gives, \<^verbatim>\<open>deleteAll\<close> has emptied the index
  before it turns to the directory, so the list of all messages is empty afterwards; a
  failure to list the directory is raised as an exception; in no case is the callback
  invoked; and the facade's \<^verbatim>\<open>deleteAllEmail\<close> leaves the same store.
\<close>

lemma deleteAll_clears_index_first:
  "messages (fst (deleteAll st fs listing)) = []
   \<and> allEmails (fst (deleteAll st fs listing)) = []
   \<and> getAllEmail (fst (deleteAll st fs listing)) = CbOk []
   \<and> mailDir (fst (deleteAll st fs listing)) = mailDir st
   \<and> \<not> invoked_callback (snd (snd (deleteAll st fs listing)))
   \<and> deleteAll st fs (Inl err) = (st\<lparr>messages := []\<rparr>, fs, Threw err)
   \<and> fst (deleteAllEmail st fs listing) = fst (deleteAll st fs listing)"
  by (simp add: deleteAll_def deleteAllEmail_def allEmails_def getAllEmail_def Let_def
      split: sum.split list.split)

text \<open>
  C8. The claim asks that \<^verbatim>\<open>deleteAll\<close>, having cleared the index, remove every entry
  under the root directory, a removal that fails being collected and reported without
  halting the sweep of the other entries. The store holds the record "m1", and the root
  directory holds its raw file and its attachment directory, which the listing names.
  The index is emptied; the sweep then ends in the ReferenceError of the unbound
  \<^verbatim>\<open>rimraf\<close> at the first entry, which is not reported through a callback; the second
  entry is never attempted; and the file system is as it was, both artifacts in place.
\<close>

theorem deleteAll_sweep_removes_nothing:
  "deleteAll \<lparr>mailDir = ''/tmp/maildev'', messages = [example_with_attachment]\<rparr> example_disk
      (Inr [''m1.eml'', ''m1''])
     = (\<lparr>mailDir = ''/tmp/maildev'', messages = []\<rparr>, example_disk,
        Threw (ReferenceError ''rimraf is not defined''))
   \<and> files example_disk ''/tmp/maildev/m1.eml'' = Some ''Hello''
   \<and> files example_disk ''/tmp/maildev/m1/logo.png'' = Some ''PNG''"
  by (simp add: deleteAll_def Let_def example_disk_def)

section \<open>Attachment streams\<close>

lemma attachment_stream_p2_no_record:
  "filter (\<lambda>m. msg_id m = i) (messages st) = [] \<Longrightarrow>
   emailAttachmentStreamById_p2 st i fname = CbErr (Error ''Email was not found'')"
  by (simp add: emailAttachmentStreamById_p2_def emailById_absent)

lemma attachment_stream_p2_no_attachments:
  "filter (\<lambda>m. msg_id m = i) (messages st) = [email] \<Longrightarrow>
   attachments email = None \<or> attachments email = Some [] \<Longrightarrow>
   emailAttachmentStreamById_p2 st i fname = CbErr (Error ''Email has no attachments'')"
  by (auto simp: emailAttachmentStreamById_p2_def emailById_unique)

lemma attachment_stream_p2_no_match:
  "filter (\<lambda>m. msg_id m = i) (messages st) = [email] \<Longrightarrow>
   attachments email = Some atts \<Longrightarrow> atts \<noteq> [] \<Longrightarrow>
   filter (\<lambda>a. generatedFileName a = Some fname) atts = [] \<Longrightarrow>
   emailAttachmentStreamById_p2 st i fname = CbErr (Error ''Attachment not found'')"
  by (simp add: emailAttachmentStreamById_p2_def emailById_unique Let_def)

lemma attachment_stream_p2_match:
  "filter (\<lambda>m. msg_id m = i) (messages st) = [email] \<Longrightarrow>
   attachments email = Some atts \<Longrightarrow>
   filter (\<lambda>a. generatedFileName a = Some fname) atts = a # rest \<Longrightarrow>
   att_source a = Some p \<Longrightarrow>
   emailAttachmentStreamById_p2 st i fname = CbOk (contentType a, ReadStream p)"
  by (auto simp: emailAttachmentStreamById_p2_def emailById_unique Let_def createReadStream_def)

lemma attachment_stream_match_throws:
  "filter (\<lambda>m. msg_id m = i) (messages st) = [email] \<Longrightarrow>
   attachments email = Some atts \<Longrightarrow>
   filter (\<lambda>a. generatedFileName a = Some fname) atts = a # rest \<Longrightarrow>
   emailAttachmentStreamById st i fname = Threw (TypeError ''The path argument must be of type string'')"
  by (auto simp: emailAttachmentStreamById_def emailById_unique Let_def createReadStream_def)

text \<open>
  C7. The claim asks that a matching attachment be answered with its content type and
  a stream of its stored bytes. For the record "m1" with the attachment "logo.png" of
  type image/png stored at /tmp/maildev/m1/logo.png, \<^verbatim>\<open>emailAttachmentStreamById\<close> of
  \<^verbatim>\<open>src/lib/store.js\<close> ends in a TypeError and invokes no callback, while the same method
  of \<^verbatim>\<open>src/unnamed/part_002\<close> answers with the content type and the stream of that path.
\<close>

theorem attachment_stream_of_match:
  "emailAttachmentStreamById \<lparr>mailDir = ''/tmp/maildev'', messages = [example_with_attachment]\<rparr>
      ''m1'' ''logo.png''
     = Threw (TypeError ''The path argument must be of type string'')
   \<and> emailAttachmentStreamById_p2 \<lparr>mailDir = ''/tmp/maildev'', messages = [example_with_attachment]\<rparr>
      ''m1'' ''logo.png''
     = CbOk (Some ''image/png'', ReadStream ''/tmp/maildev/m1/logo.png'')"
  by (simp add: emailAttachmentStreamById_def emailAttachmentStreamById_p2_def emailById_def
      example_with_attachment_def example_attachment_def createReadStream_def Let_def)

section \<open>The copy helper and the header and text listeners\<close>

lemma copy_of_map:
  "copy (SrcMap m) srcKey dst dstKey d = Inr (if truthy d then dst(dstKey \<mapsto> d) else dst)"
  by (simp add: copy_def get_prop_def)

lemma copy_of_object:
  "copy (SrcObject obj) srcKey dst dstKey d =
     Inr (if truthy (prop_of obj srcKey) then dst(dstKey \<mapsto> prop_of obj srcKey)
          else if truthy d then dst(dstKey \<mapsto> d) else dst)"
  by (simp add: copy_def get_prop_def)

lemma copy_p2_of_map:
  "copy_p2 (SrcMap m) srcKey dst dstKey (Value d) =
     Inr (case m srcKey of
            Some v \<Rightarrow> dst(dstKey \<mapsto> v)
          | None \<Rightarrow> if truthy d then dst(dstKey \<mapsto> d) else dst)"
  by (auto simp: copy_p2_def src_has_def src_get_def get_prop_def prop_of_def identity_def Let_def
      split: option.split)

lemma copy_p2_of_object:
  "obj ''has'' = None \<Longrightarrow>
   copy_p2 (SrcObject obj) srcKey dst dstKey (Value d) =
     Inr (if truthy (prop_of obj srcKey) then dst(dstKey \<mapsto> prop_of obj srcKey)
          else if truthy d then dst(dstKey \<mapsto> d) else dst)"
  by (simp add: copy_p2_def src_has_def get_prop_def identity_def Let_def)

lemma copy_p2_transform_of_object:
  "obj ''has'' = None \<Longrightarrow>
   copy_p2 (SrcObject obj) srcKey dst dstKey (Function f) =
     Inr (if truthy (prop_of obj srcKey) then dst(dstKey \<mapsto> f (prop_of obj srcKey)) else dst)"
  by (simp add: copy_p2_def src_has_def get_prop_def Let_def)

text \<open>
  With the header set a \<^verbatim>\<open>Map\<close>, the listener of \<^verbatim>\<open>src/lib/store.js\<close> copies no header
  at all: the only field it writes is \<open>time\<close>, with the time of receipt.
\<close>

lemma on_headers_of_map:
  "on_headers (SrcMap m) now dst = Inr (dst(''time'' \<mapsto> JDate now))"
  by (simp add: on_headers_def get_prop_def header_copies_def copy_of_map)

lemma copy_all_p2_map_other_key:
  "k \<notin> set (map (\<lambda>e. fst (snd e)) tbl) \<Longrightarrow>
   \<exists>r. copy_all copy_p2 (SrcMap m) (map (\<lambda>e. (fst e, fst (snd e), Value (snd (snd e)))) tbl) dst = Inr r
       \<and> r k = dst k"
proof (induction tbl arbitrary: dst)
  case Nil
  then show ?case by simp
next
  case (Cons e tbl)
  obtain sk dk d where e: "e = (sk, dk, d)" by (cases e)
  from Cons.prems e have neq: "k \<noteq> dk" and rest: "k \<notin> set (map (\<lambda>e. fst (snd e)) tbl)"
    by auto
  obtain dst1 where c: "copy_p2 (SrcMap m) sk dst dk (Value d) = Inr dst1" and same: "dst1 k = dst k"
    using neq by (auto simp: copy_p2_of_map split: option.split)
  from Cons.IH [OF rest, of dst1] same c e show ?case by auto
qed

text \<open>
  With the header set a \<^verbatim>\<open>Map\<close> that has no \<open>from\<close>, the listener of
  \<^verbatim>\<open>src/unnamed/part_002\<close> leaves \<open>from\<close> as it was, whatever the \<open>sender\<close> header is.
\<close>

lemma on_headers_p2_no_fallback:
  assumes "m ''from'' = None"
  shows "\<exists>r. on_headers_p2 (SrcMap m) now dst = Inr r \<and> r ''from'' = dst ''from''"
proof -
  let ?rest = "map (\<lambda>e. (fst e, fst (snd e), Value (snd (snd e))))
                 (tl (header_copies JUndefined JUndefined (JDate now)))"
  have hc: "header_copies (Value JUndefined) (Value JUndefined) (Value (JDate now))
              = (''from'', ''from'', Value JUndefined) # ?rest"
    by (simp add: header_copies_def)
  have first: "copy_p2 (SrcMap m) ''from'' dst ''from'' (Value JUndefined) = Inr dst"
    using assms by (simp add: copy_p2_of_map)
  have "on_headers_p2 (SrcMap m) now dst = copy_all copy_p2 (SrcMap m) ?rest dst"
    by (simp add: on_headers_p2_def get_prop_def hc first)
  moreover have "\<exists>r. copy_all copy_p2 (SrcMap m) ?rest dst = Inr r \<and> r ''from'' = dst ''from''"
    by (rule copy_all_p2_map_other_key) (simp add: header_copies_def)
  ultimately show ?thesis by simp
qed

text \<open>
  C4. The claim asks that each field be set from its header when the header is present
  and that \<open>from\<close> fall back to the \<open>sender\<close> header. The header set is a \<^verbatim>\<open>Map\<close> holding
  \<open>sender\<close> (Alice) and \<open>subject\<close> (Hi) and no \<open>from\<close>; the message starts from the
  envelope. The listener of \<^verbatim>\<open>src/lib/store.js\<close> sets only \<open>time\<close>: neither \<open>sender\<close> nor
  \<open>subject\<close> is copied and \<open>from\<close> stays the envelope's. The listener of
  \<^verbatim>\<open>src/unnamed/part_002\<close> copies \<open>sender\<close> and \<open>subject\<close> and sets \<open>time\<close>, but \<open>from\<close>
  stays the envelope's too. Given the same headers as a plain object, the listener of
  \<^verbatim>\<open>src/lib/store.js\<close> does what the claim says, \<open>from\<close> falling back to Alice.
\<close>

theorem headers_from_a_map:
  "on_headers (SrcMap example_headers) 42 example_envelope
     = Inr (example_envelope(''time'' \<mapsto> JDate 42))
   \<and> on_headers_p2 (SrcMap example_headers) 42 example_envelope
     = Inr (example_envelope(''sender'' \<mapsto> JObj ''Alice'', ''subject'' \<mapsto> JStr ''Hi'',
                             ''time'' \<mapsto> JDate 42))
   \<and> on_headers (SrcObject example_headers) 42 example_envelope
     = Inr (example_envelope(''from'' \<mapsto> JObj ''Alice'', ''sender'' \<mapsto> JObj ''Alice'',
                             ''subject'' \<mapsto> JStr ''Hi'', ''time'' \<mapsto> JDate 42))"
  by (simp add: on_headers_p2_def on_headers_def get_prop_def header_copies_def
      copy_of_map copy_p2_of_map copy_of_object prop_of_def example_headers_def)

lemma on_text_of_string:
  "d ''text'' = Some (JStr t) \<Longrightarrow> on_text d dst = Inr dst"
  by (simp add: on_text_def as_source_def copy_def get_prop_def prop_of_def)

lemma on_text_without_text:
  "d ''text'' = None \<Longrightarrow> on_text d dst = Inl (TypeError ''Cannot read properties of undefined'')"
  by (simp add: on_text_def as_source_def copy_def get_prop_def prop_of_def)

text \<open>
  Were \<^verbatim>\<open>data.text\<close> an object that holds the three fields, the listener of
  \<^verbatim>\<open>src/lib/store.js\<close> would copy them, the html as it is: nothing in it strips a tag.
\<close>

lemma on_text_of_object_keeps_script:
  "on_text [''text'' \<mapsto> JRec [(''text'', JStr ''Hello''),
                               (''html'', JStr ''<p>Hello</p><script>x()</script>'')]] dst
     = Inr (dst(''text'' \<mapsto> JStr ''Hello'', ''html'' \<mapsto> JStr ''<p>Hello</p><script>x()</script>''))"
  by (simp add: on_text_def as_source_def copy_of_object prop_of_def)

text \<open>
  The text listener of \<^verbatim>\<open>src/unnamed/part_002\<close> does what C5 says: each of the three
  fields is written when, and only when, its source property is truthy, a field whose
  source is absent keeps its value, and the html stored is \<^verbatim>\<open>stripTags(html, ['script'])\<close>.
\<close>

lemma on_text_p2_sets_present_fields:
  "d ''has'' = None \<Longrightarrow>
   on_text_p2 stripTags d dst =
     Inr (let dst1 = (if truthy (prop_of d ''text'') then dst(''text'' \<mapsto> prop_of d ''text'') else dst);
              dst2 = (if truthy (prop_of d ''html'')
                      then dst1(''html'' \<mapsto> stripTags (prop_of d ''html'') [''script'']) else dst1)
          in if truthy (prop_of d ''textAsHtml'')
             then dst2(''textAsHtml'' \<mapsto> prop_of d ''textAsHtml'') else dst2)"
  by (simp add: on_text_p2_def copy_p2_of_object copy_p2_transform_of_object Let_def)

text \<open>
  C5. The claim asks that \<open>text\<close>, \<open>html\<close> and \<open>textAsHtml\<close> be set when the source
  field is present, the html with its script content stripped. For a text part that has
  all three, the listener of \<^verbatim>\<open>src/lib/store.js\<close> leaves the message as it was (it reads
  the three properties off the string \<^verbatim>\<open>data.text\<close>), for a part with html and no
  text it raises a TypeError, and were \<^verbatim>\<open>data.text\<close> an object holding the fields it
  would store the html with its script; the listener of \<^verbatim>\<open>src/unnamed/part_002\<close> sets the three
  fields, the html passed through \<^verbatim>\<open>stripTags\<close> with the tag list \<^verbatim>\<open>['script']\<close>.
\<close>

theorem text_part_fields:
  "on_text example_text example_envelope = Inr example_envelope
   \<and> on_text [''type'' \<mapsto> JStr ''text'', ''html'' \<mapsto> JStr ''<p>Hello</p>''] example_envelope
     = Inl (TypeError ''Cannot read properties of undefined'')
   \<and> on_text [''text'' \<mapsto> JRec [(''text'', JStr ''Hello''),
                                  (''html'', JStr ''<p>Hello</p><script>x()</script>'')]] example_envelope
     = Inr (example_envelope(''text'' \<mapsto> JStr ''Hello'',
                             ''html'' \<mapsto> JStr ''<p>Hello</p><script>x()</script>''))
   \<and> on_text_p2 stripTags example_text example_envelope
     = Inr (example_envelope(''text'' \<mapsto> JStr ''Hello'',
              ''html'' \<mapsto> stripTags (JStr ''<p>Hello</p><script>x()</script>'') [''script''],
              ''textAsHtml'' \<mapsto> JStr ''<p>Hello</p>''))"
  by (simp add: on_text_of_string on_text_without_text on_text_of_object_keeps_script
      on_text_p2_sets_present_fields example_text_def prop_of_def Let_def)

section \<open>Message assembly\<close>

lemma run_halts: "thrown s \<noteq> None \<Longrightarrow> run stp es s = s"
  by (cases es) simp_all

lemma run_append:
  "run stp (es @ fs) s = run stp fs (run stp es s)"
proof (induction es arbitrary: s)
  case Nil
  then show ?case by simp
next
  case (Cons e es)
  then show ?case by (simp add: run_halts)
qed

lemma run_chunks:
  "thrown s = None \<Longrightarrow>
   run (step outs sa fb) (map InData cs) s =
     s\<lparr>disk := (case eml_sink s of None \<Rightarrow> disk s | Some p \<Rightarrow> fold (ws_write p) cs (disk s)),
       parser_input := parser_input s @ concat cs,
       size_acc := size_acc s + length (concat cs)\<rparr>"
proof (induction cs arbitrary: s)
  case Nil
  then show ?case by (simp split: option.split)
next
  case (Cons c cs)
  have t: "thrown (on_inStream_data c s) = None"
    using Cons.prems by (simp add: on_inStream_data_def)
  show ?case
    using Cons.prems Cons.IH [OF t]
    by (simp add: on_inStream_data_def split: option.split)
qed

lemma run_chunks_p2:
  "thrown s = None \<Longrightarrow>
   run (step_p2 sT outs sa fb) (map InData cs) s =
     s\<lparr>disk := (case eml_sink s of None \<Rightarrow> disk s | Some p \<Rightarrow> fold (ws_write p) cs (disk s)),
       parser_input := parser_input s @ concat cs,
       size_acc := size_acc s + length (concat cs)\<rparr>"
proof (induction cs arbitrary: s)
  case Nil
  then show ?case by (simp split: option.split)
next
  case (Cons c cs)
  have t: "thrown (on_inStream_data c s) = None"
    using Cons.prems by (simp add: on_inStream_data_def)
  show ?case
    using Cons.prems Cons.IH [OF t]
    by (simp add: on_inStream_data_def split: option.split)
qed

lemma written_chunks:
  "files d p = Some old \<Longrightarrow>
   files (fold (ws_write p) cs d) p = Some (old @ concat cs)
   \<and> open_ws (fold (ws_write p) cs d) = open_ws d"
  by (induction cs arbitrary: d old) (simp_all add: ws_write_def)

lemma setup_of_store:
  "parseMessage_setup (outStreams_of st) i envelope fs =
     \<lparr>msg = \<lparr>msg_id = i, props = envelope, attachments = Some [], source = None,
             msg_size = None, sizeHuman = None, read = None\<rparr>,
      size_acc = 0, eml_sink = None, att_sinks = [], parser_input = [],
      parser_end_called = False, parser_ended = False, drained = False,
      completions = [], thrown = None, disk = createWriteStream (emlPath st None) fs\<rparr>"
  by (simp add: parseMessage_setup_def outStreams_of_def emlWriteStream_def Let_def)

lemma setup_of_store_p2:
  "parseMessage_setup (outStreams_p2 st i) i envelope fs =
     \<lparr>msg = \<lparr>msg_id = i, props = envelope, attachments = Some [], source = None,
             msg_size = None, sizeHuman = None, read = None\<rparr>,
      size_acc = 0, eml_sink = None, att_sinks = [], parser_input = [],
      parser_end_called = False, parser_ended = False, drained = False,
      completions = [], thrown = None,
      disk = createWriteStream (path_join (mailDir st) (i @ ''.eml'')) fs\<rparr>"
  by (simp add: parseMessage_setup_def outStreams_p2_def Let_def)

text \<open>
  C3. The claim asks that the size of a record equal the number of bytes written to the
  raw-message file at \<open>source\<close>. For a message whose inbound stream delivers the chunks
  \<open>cs\<close> and ends, \<^verbatim>\<open>handleNewMessage\<close> of either store file completes one record (which it
  appends to the index) whose size is the total length of the chunks, set at the end of
  the stream, and whose \<open>source\<close> is absent; the file that was opened for the raw message
  (\<^verbatim>\<open>undefined.eml\<close> under the root in \<^verbatim>\<open>src/lib/store.js\<close>, the id with \<^verbatim>\<open>.eml\<close> in
  \<^verbatim>\<open>src/unnamed/part_002\<close>) holds no byte.
\<close>

theorem size_without_raw_artifact:
  "completions (snd (handleNewMessage formatBytes st i envelope (map InData cs @ [InEnd]) fs))
     = [\<lparr>msg_id = i, props = envelope, attachments = Some [], source = None,
         msg_size = Some (length (concat cs)),
         sizeHuman = Some (formatBytes (length (concat cs))), read = None\<rparr>]
   \<and> messages (fst (handleNewMessage formatBytes st i envelope (map InData cs @ [InEnd]) fs))
     = messages st @
       completions (snd (handleNewMessage formatBytes st i envelope (map InData cs @ [InEnd]) fs))
   \<and> files (disk (snd (handleNewMessage formatBytes st i envelope (map InData cs @ [InEnd]) fs)))
        (emlPath st None) = Some []
   \<and> completions (snd (handleNewMessage_p2 stripTags formatBytes st i envelope
                         (map InData cs @ [InEnd, ParserEnd]) fs))
     = [\<lparr>msg_id = i, props = envelope, attachments = Some [], source = None,
         msg_size = Some (length (concat cs)),
         sizeHuman = Some (formatBytes (length (concat cs))), read = None\<rparr>]
   \<and> files (disk (snd (handleNewMessage_p2 stripTags formatBytes st i envelope
                         (map InData cs @ [InEnd, ParserEnd]) fs)))
        (path_join (mailDir st) (i @ ''.eml'')) = Some []"
  by (simp add: handleNewMessage_def handleNewMessage_p2_def Let_def run_append run_chunks
      run_chunks_p2 setup_of_store setup_of_store_p2 on_inStream_end_def on_inStream_end_p2_def
      on_parser_end_p2_def pipe_end_def createWriteStream_def)

text \<open>
  Were the provider of the raw sink to return an object with \<open>source\<close> and \<open>emlStream\<close>,
  as \<^verbatim>\<open>parseMessage\<close> destructures it, the size would be the number of bytes in the file.
\<close>

lemma size_matches_an_object_provider:
  assumes "os_emlStream outs = (\<lambda>fs. (SourceAndStream (Some p) (Some p), createWriteStream p fs))"
  shows "map msg_size (completions (run (step outs sa fb) (map InData cs @ [InEnd])
            (parseMessage_setup outs i envelope fs))) = [Some (length (concat cs))]
       \<and> map source (completions (run (step outs sa fb) (map InData cs @ [InEnd])
            (parseMessage_setup outs i envelope fs))) = [Some p]
       \<and> files (disk (run (step outs sa fb) (map InData cs @ [InEnd])
            (parseMessage_setup outs i envelope fs))) p = Some (concat cs)"
proof -
  have w: "files (fold (ws_write p) cs (createWriteStream p fs)) p = Some ([] @ concat cs)"
    by (rule written_chunks [THEN conjunct1]) (simp add: createWriteStream_def)
  show ?thesis
    using w
    by (simp add: run_append run_chunks parseMessage_setup_def assms Let_def
        on_inStream_end_def pipe_end_def ws_end_def)
qed

text \<open>
  In \<^verbatim>\<open>src/lib/store.js\<close> the end of the inbound stream invokes the callback, whatever the
  parser has emitted and whichever sinks are open, and the parser's end invokes nothing.
  In \<^verbatim>\<open>src/unnamed/part_002\<close> the end of the inbound stream sets the size and ends the
  parser, and it is the parser's end that invokes the callback.
\<close>

lemma stream_end_invokes_callback:
  "completions (step outs sa fb InEnd s) = completions s @ [msg (step outs sa fb InEnd s)]
   \<and> parser_ended (step outs sa fb InEnd s) = parser_ended s
   \<and> att_sinks (step outs sa fb InEnd s) = att_sinks s
   \<and> completions (step outs sa fb ParserEnd s) = completions s"
  by (simp add: on_inStream_end_def pipe_end_def Let_def)

lemma stream_end_p2_defers_callback:
  "completions (step_p2 sT outs sa fb InEnd s) = completions s
   \<and> msg_size (msg (step_p2 sT outs sa fb InEnd s)) = Some (size_acc s)
   \<and> parser_end_called (step_p2 sT outs sa fb InEnd s)
   \<and> completions (step_p2 sT outs sa fb ParserEnd s) = completions s @ [msg s]"
  by (simp add: on_inStream_end_p2_def on_parser_end_p2_def pipe_end_def)

lemma open_sink_keeps:
  "completions (open_attachment_sink provider att s) = completions s
   \<and> msg_size (msg (open_attachment_sink provider att s)) = msg_size (msg s)
   \<and> source (msg (open_attachment_sink provider att s)) = source (msg s)"
  by (simp add: open_attachment_sink_def Let_def split: option.split sum.split)

lemma step_keeps_completions:
  "e \<noteq> InEnd \<Longrightarrow> completions (step outs sa fb e s) = completions s"
proof (cases e)
  case (ParserData d)
  then show ?thesis
    by (cases d) (simp_all add: on_attachment_def set_props_def open_sink_keeps Let_def
        split: option.split sum.split)
qed (simp_all add: on_inStream_data_def set_props_def on_content_data_def on_content_end_def
      split: option.split sum.split)

lemma step_p2_keeps_completions:
  "e \<noteq> ParserEnd \<Longrightarrow> completions (step_p2 sT outs sa fb e s) = completions s"
proof (cases e)
  case (ParserData d)
  then show ?thesis
    by (cases d) (simp_all add: on_attachment_p2_def set_props_def open_sink_keeps Let_def
        split: option.split sum.split)
qed (simp_all add: on_inStream_data_def on_inStream_end_p2_def pipe_end_def set_props_def
      on_content_data_def on_content_end_def split: option.split sum.split)

lemma step_keeps_size:
  "e \<noteq> InEnd \<Longrightarrow> msg_size (msg (step outs sa fb e s)) = msg_size (msg s)"
proof (cases e)
  case (ParserData d)
  then show ?thesis
    by (cases d) (simp_all add: on_attachment_def set_props_def open_sink_keeps Let_def
        split: option.split sum.split)
qed (simp_all add: on_inStream_data_def set_props_def on_content_data_def on_content_end_def
      split: option.split sum.split)

lemma step_p2_keeps_size:
  "e \<noteq> InEnd \<Longrightarrow> msg_size (msg (step_p2 sT outs sa fb e s)) = msg_size (msg s)"
proof (cases e)
  case (ParserData d)
  then show ?thesis
    by (cases d) (simp_all add: on_attachment_p2_def set_props_def open_sink_keeps Let_def
        split: option.split sum.split)
qed (simp_all add: on_inStream_data_def on_parser_end_p2_def set_props_def
      on_content_data_def on_content_end_def split: option.split sum.split)

text \<open>
  In both store files the size of the record is written by the listener of the inbound
  stream's end and by nothing before it.
\<close>

lemma size_unset_before_stream_end:
  "InEnd \<notin> set es \<Longrightarrow> msg_size (msg (run (step outs sa fb) es s)) = msg_size (msg s)"
proof (induction es arbitrary: s)
  case Nil
  then show ?case by simp
next
  case (Cons e es)
  then show ?case by (auto simp: step_keeps_size)
qed

lemma size_unset_before_stream_end_p2:
  "InEnd \<notin> set es \<Longrightarrow> msg_size (msg (run (step_p2 sT outs sa fb) es s)) = msg_size (msg s)"
proof (induction es arbitrary: s)
  case Nil
  then show ?case by simp
next
  case (Cons e es)
  then show ?case by (auto simp: step_p2_keeps_size)
qed

text \<open>
  The callback is invoked by no listener but that of the inbound stream's end in
  \<^verbatim>\<open>src/lib/store.js\<close>, and by none but that of the parser's end in
  \<^verbatim>\<open>src/unnamed/part_002\<close>.
\<close>

lemma no_callback_before_stream_end:
  "InEnd \<notin> set es \<Longrightarrow> completions (run (step outs sa fb) es s) = completions s"
proof (induction es arbitrary: s)
  case Nil
  then show ?case by simp
next
  case (Cons e es)
  then show ?case by (auto simp: step_keeps_completions)
qed

lemma no_callback_before_parser_end_p2:
  "ParserEnd \<notin> set es \<Longrightarrow> completions (run (step_p2 sT outs sa fb) es s) = completions s"
proof (induction es arbitrary: s)
  case Nil
  then show ?case by simp
next
  case (Cons e es)
  then show ?case by (auto simp: step_p2_keeps_completions)
qed

lemma example_headers_p2:
  "on_headers_p2 (SrcMap [''subject'' \<mapsto> JStr ''Hi'']) 42 dst
     = Inr (dst(''subject'' \<mapsto> JStr ''Hi'', ''time'' \<mapsto> JDate 42))"
  by (simp add: on_headers_p2_def get_prop_def header_copies_def copy_p2_of_map)

lemma example_text_p2:
  "on_text_p2 stripTags example_text dst
     = Inr (dst(''text'' \<mapsto> JStr ''Hello'',
              ''html'' \<mapsto> stripTags (JStr ''<p>Hello</p><script>x()</script>'') [''script''],
              ''textAsHtml'' \<mapsto> JStr ''<p>Hello</p>''))"
  by (simp add: on_text_p2_sets_present_fields example_text_def prop_of_def Let_def)

lemma example_text_lib: "on_text example_text dst = Inr dst"
proof -
  have "example_text ''text'' = Some (JStr ''Hello'')"
    by (simp add: example_text_def)
  then show ?thesis
    by (rule on_text_of_string [of example_text "''Hello''"])
qed

text \<open>
  C1. The claim asks that the completion callback be invoked only after the inbound
  stream has drained, the parser has emitted its end and every attachment sink is
  closed. A message arrives as the chunk "Hello" and the end of the stream; the parser
  then emits a header set, a text part and its end. With \<^verbatim>\<open>src/lib/store.js\<close> the callback
  has been invoked once the stream has ended, while the parser has not emitted its end;
  the record it was invoked with has no \<open>time\<close>, which the header listener sets
  afterwards; the later events invoke nothing. With \<^verbatim>\<open>src/unnamed/part_002\<close> the end of
  the stream invokes nothing and the parser's end invokes the callback, once, with the
  size set.
\<close>

theorem completion_at_stream_end:
  "map msg_size (completions (example_run formatBytes [InData ''Hello'', InEnd])) = [Some 5]
   \<and> \<not> parser_ended (example_run formatBytes [InData ''Hello'', InEnd])
   \<and> map (\<lambda>m. props m ''time'') (completions (example_run formatBytes
        [InData ''Hello'', InEnd, ParserHeaders (SrcMap [''subject'' \<mapsto> JStr ''Hi'']) 42,
         ParserData (TextPart example_text), ParserEnd])) = [None]
   \<and> props (msg (example_run formatBytes
        [InData ''Hello'', InEnd, ParserHeaders (SrcMap [''subject'' \<mapsto> JStr ''Hi'']) 42,
         ParserData (TextPart example_text), ParserEnd])) ''time'' = Some (JDate 42)
   \<and> completions (example_run_p2 stripTags formatBytes [InData ''Hello'', InEnd]) = []
   \<and> map msg_size (completions (example_run_p2 stripTags formatBytes
        [InData ''Hello'', InEnd, ParserHeaders (SrcMap [''subject'' \<mapsto> JStr ''Hi'']) 42,
         ParserData (TextPart example_text), ParserEnd])) = [Some 5]
   \<and> map (\<lambda>m. props m ''subject'') (completions (example_run_p2 stripTags formatBytes
        [InData ''Hello'', InEnd, ParserHeaders (SrcMap [''subject'' \<mapsto> JStr ''Hi'']) 42,
         ParserData (TextPart example_text), ParserEnd])) = [Some (JStr ''Hi'')]"
proof -
  have lib: "example_run formatBytes es =
      run (step (outStreams_of example_store) True formatBytes) es
        (parseMessage_setup (outStreams_of example_store) ''m1'' example_envelope example_fs)" for es
    by (simp add: example_run_def handleNewMessage_def Let_def)
  have p2: "example_run_p2 stripTags formatBytes es =
      run (step_p2 stripTags (outStreams_p2 example_store ''m1'') True formatBytes) es
        (parseMessage_setup (outStreams_p2 example_store ''m1'') ''m1'' example_envelope example_fs)" for es
    by (simp add: example_run_p2_def handleNewMessage_p2_def Let_def)
  have a: "map msg_size (completions (example_run formatBytes [InData ''Hello'', InEnd])) = [Some 5]"
    by (simp add: lib setup_of_store on_inStream_data_def on_inStream_end_def pipe_end_def Let_def)
  have b: "\<not> parser_ended (example_run formatBytes [InData ''Hello'', InEnd])"
    by (simp add: lib setup_of_store on_inStream_data_def on_inStream_end_def pipe_end_def Let_def)
  have c: "map (\<lambda>m. props m ''time'') (completions (example_run formatBytes
        [InData ''Hello'', InEnd, ParserHeaders (SrcMap [''subject'' \<mapsto> JStr ''Hi'']) 42,
         ParserData (TextPart example_text), ParserEnd])) = [None]"
    by (simp add: lib setup_of_store on_inStream_data_def on_inStream_end_def pipe_end_def Let_def
        set_props_def on_headers_of_map example_text_lib example_envelope_def)
  have d: "props (msg (example_run formatBytes
        [InData ''Hello'', InEnd, ParserHeaders (SrcMap [''subject'' \<mapsto> JStr ''Hi'']) 42,
         ParserData (TextPart example_text), ParserEnd])) ''time'' = Some (JDate 42)"
    by (simp add: lib setup_of_store on_inStream_data_def on_inStream_end_def pipe_end_def Let_def
        set_props_def on_headers_of_map example_text_lib)
  have e: "completions (example_run_p2 stripTags formatBytes [InData ''Hello'', InEnd]) = []"
    by (simp add: p2 setup_of_store_p2 on_inStream_data_def on_inStream_end_p2_def pipe_end_def)
  have f: "map msg_size (completions (example_run_p2 stripTags formatBytes
        [InData ''Hello'', InEnd, ParserHeaders (SrcMap [''subject'' \<mapsto> JStr ''Hi'']) 42,
         ParserData (TextPart example_text), ParserEnd])) = [Some 5]"
    by (simp add: p2 setup_of_store_p2 on_inStream_data_def on_inStream_end_p2_def pipe_end_def
        on_parser_end_p2_def set_props_def example_headers_p2 example_text_p2)
  have g: "map (\<lambda>m. props m ''subject'') (completions (example_run_p2 stripTags formatBytes
        [InData ''Hello'', InEnd, ParserHeaders (SrcMap [''subject'' \<mapsto> JStr ''Hi'']) 42,
         ParserData (TextPart example_text), ParserEnd])) = [Some (JStr ''Hi'')]"
    by (simp add: p2 setup_of_store_p2 on_inStream_data_def on_inStream_end_p2_def pipe_end_def
        on_parser_end_p2_def set_props_def example_headers_p2 example_text_p2)
  from a b c d e f g show ?thesis by blast
qed

section \<open>Inline images\<close>

lemma encode_logo: "encodeURIComponent ''logo.png'' = ''logo.png''"
  by (simp add: encodeURIComponent_def unreserved_def)

lemma encode_undefined: "encodeURIComponent ''undefined'' = ''undefined''"
  by (simp add: encodeURIComponent_def unreserved_def)

lemma provider_of_store: "os_attachmentWriteStream (outStreams_of st) = None"
  by (simp add: outStreams_of_def)

lemma provider_of_store_p2:
  "os_attachmentStream (outStreams_p2 st i) =
     Some (\<lambda>att fs.
       (case generatedFileName att of
          None \<Rightarrow> (Inl (TypeError ''The path argument must be of type string''),
                   mkdir_if_absent (path_join (mailDir st) i) fs)
        | Some g \<Rightarrow>
            (Inr (Some (path_join (path_join (mailDir st) i) g),
                  Some (path_join (path_join (mailDir st) i) g)),
             createWriteStream (path_join (path_join (mailDir st) i) g)
               (mkdir_if_absent (path_join (mailDir st) i) fs))))"
  by (simp add: outStreams_p2_def Let_def)

text \<open>
  C9. The claim asks that a \<^verbatim>\<open>cid:\<close> reference to an attachment be replaced by the URL
  built from the message id and the attachment's generated file name, the name under
  which the attachment is stored and can be fetched. The message with the inline image
  is assembled by \<^verbatim>\<open>handleNewMessage\<close> of \<^verbatim>\<open>src/lib/store.js\<close>: the listener of the
  attachment part raises a TypeError (the provider it asks for is not a property of
  \<^verbatim>\<open>outStreams\<close>); the record in the index has the attachment, with neither a generated
  file name nor a source, and has no html; no file is written for the attachment. On
  that index \<^verbatim>\<open>getEmailHTML\<close> raises a TypeError, where the claim has it return the html
  with the reference replaced; the URL it builds for the attachment before that ends in
  "undefined"; and the attachment cannot be fetched under its file name. With
  \<^verbatim>\<open>src/unnamed/part_002\<close> the same message is assembled without an exception, the bytes
  of the attachment are in the file under the root, the id and the generated file name,
  \<^verbatim>\<open>getEmailHTML\<close> hands the html to the replacement of the reference by the URL of that
  name (\<^verbatim>\<open>stripTags\<close> taken to leave this html, which has no script, as it is), and the
  attachment is fetched under that name.
\<close>

theorem inline_image_url:
  "thrown (example_run formatBytes example_inline_events)
     = Some (TypeError ''the attachment stream provider is not a function'')
   \<and> map attachments (messages (example_index formatBytes example_inline_events))
     = [Some [new_attachment example_part]]
   \<and> generatedFileName (new_attachment example_part) = None
   \<and> att_source (new_attachment example_part) = None
   \<and> map (\<lambda>m. props m ''html'') (messages (example_index formatBytes example_inline_events)) = [None]
   \<and> files (disk (example_run formatBytes example_inline_events)) ''/tmp/maildev/m1/logo.png'' = None
   \<and> getEmailHTML replace_g (example_index formatBytes example_inline_events) ''m1'' None
     = Threw (TypeError ''Cannot read properties of undefined'')
   \<and> getFileUrl ''m1'' None (generatedFileName (new_attachment example_part))
     = ''/email/m1/attachment/undefined''
   \<and> getEmailAttachment (example_index formatBytes example_inline_events) ''m1'' ''logo.png''
     = CbErr (Error ''Attachment not found'')
   \<and> thrown (example_run_p2 stripTags formatBytes example_inline_events_p2) = None
   \<and> files (disk (example_run_p2 stripTags formatBytes example_inline_events_p2))
        ''/tmp/maildev/m1/logo.png'' = Some ''PNG''
   \<and> getEmailHTML replace_g (example_index_p2 (\<lambda>v tags. v) formatBytes example_inline_events_p2)
        ''m1'' None
     = (case replace_g (cid_pattern ''logo1'')
               (''src='' @ [CHR 0x22] @ ''/email/m1/attachment/logo.png'' @ [CHR 0x22]) example_html of
          Inl e \<Rightarrow> Threw e
        | Inr h \<Rightarrow> CbOk (JStr h))
   \<and> emailAttachmentStreamById_p2 (example_index_p2 stripTags formatBytes example_inline_events_p2)
        ''m1'' ''logo.png''
     = CbOk (Some ''image/png'', ReadStream ''/tmp/maildev/m1/logo.png'')"
proof -
  have lib: "example_run formatBytes es =
      run (step (outStreams_of example_store) True formatBytes) es
        (parseMessage_setup (outStreams_of example_store) ''m1'' example_envelope example_fs)" for es
    by (simp add: example_run_def handleNewMessage_def Let_def)
  have p2: "example_run_p2 sT formatBytes es =
      run (step_p2 sT (outStreams_p2 example_store ''m1'') True formatBytes) es
        (parseMessage_setup (outStreams_p2 example_store ''m1'') ''m1'' example_envelope example_fs)"
    for es sT
    by (simp add: example_run_p2_def handleNewMessage_p2_def Let_def)
  have idx: "messages (example_index formatBytes es) =
      map (\<lambda>m. msg (example_run formatBytes es)) (completions (example_run formatBytes es))" for es
    by (simp add: example_index_def example_run_def handleNewMessage_def Let_def example_store_def)
  have idx2: "messages (example_index_p2 sT formatBytes es) =
      map (\<lambda>m. msg (example_run_p2 sT formatBytes es)) (completions (example_run_p2 sT formatBytes es))"
    for es sT
    by (simp add: example_index_p2_def example_run_p2_def handleNewMessage_p2_def Let_def
        example_store_def)
  have ot: "on_text example_inline_text dst = Inr dst" for dst
  proof -
    have "example_inline_text ''text'' = Some (JStr ''Hello'')"
      by (simp add: example_inline_text_def)
    then show ?thesis
      by (rule on_text_of_string [of example_inline_text "''Hello''"])
  qed
  have ot2: "on_text_p2 sT example_inline_text dst
               = Inr (dst(''text'' \<mapsto> JStr ''Hello'', ''html'' \<mapsto> sT (JStr example_html) [''script'']))"
    for sT dst
    by (simp add: on_text_p2_sets_present_fields example_inline_text_def prop_of_def Let_def
        example_html_def)
  have c: "generatedFileName (new_attachment example_part) = None
     \<and> att_source (new_attachment example_part) = None"
    by (simp add: new_attachment_def)
  have a: "thrown (example_run formatBytes example_inline_events)
     = Some (TypeError ''the attachment stream provider is not a function'')"
    by (simp add: lib example_inline_events_def setup_of_store on_inStream_data_def
        on_inStream_end_def pipe_end_def set_props_def ot on_attachment_def
        open_attachment_sink_def provider_of_store Let_def)
  have m: "msg (example_run formatBytes example_inline_events)
     = \<lparr>msg_id = ''m1'', props = example_envelope, attachments = Some [new_attachment example_part],
        source = None, msg_size = Some 5, sizeHuman = Some (formatBytes 5), read = None\<rparr>"
    by (simp add: lib example_inline_events_def setup_of_store on_inStream_data_def
        on_inStream_end_def pipe_end_def set_props_def ot on_attachment_def
        open_attachment_sink_def provider_of_store Let_def eval_nat_numeral)
  have n: "length (completions (example_run formatBytes example_inline_events)) = 1"
    by (simp add: lib example_inline_events_def setup_of_store on_inStream_data_def
        on_inStream_end_def pipe_end_def set_props_def ot on_attachment_def
        open_attachment_sink_def provider_of_store Let_def)
  have ix: "messages (example_index formatBytes example_inline_events)
     = [\<lparr>msg_id = ''m1'', props = example_envelope, attachments = Some [new_attachment example_part],
         source = None, msg_size = Some 5, sizeHuman = Some (formatBytes 5), read = None\<rparr>]"
    using n by (cases "completions (example_run formatBytes example_inline_events)")
      (simp_all add: idx m)
  have b: "map attachments (messages (example_index formatBytes example_inline_events))
     = [Some [new_attachment example_part]]"
    by (simp add: ix)
  have d: "map (\<lambda>m. props m ''html'') (messages (example_index formatBytes example_inline_events)) = [None]"
    by (simp add: ix example_envelope_def)
  have e: "files (disk (example_run formatBytes example_inline_events)) ''/tmp/maildev/m1/logo.png'' = None"
    by (simp add: lib example_inline_events_def setup_of_store on_inStream_data_def
        on_inStream_end_def pipe_end_def set_props_def ot on_attachment_def
        open_attachment_sink_def provider_of_store Let_def createWriteStream_def emlPath_def
        path_join_def js_string_def example_store_def example_fs_def)
  have f: "getEmailHTML replace_g (example_index formatBytes example_inline_events) ''m1'' None
     = Threw (TypeError ''Cannot read properties of undefined'')"
    by (simp add: getEmailHTML_def getEmail_def emailById_def ix Let_def prop_of_def
        example_envelope_def new_attachment_def example_part_def)
  have g: "getFileUrl ''m1'' None (generatedFileName (new_attachment example_part))
     = ''/email/m1/attachment/undefined''"
    by (simp add: getFileUrl_def new_attachment_def js_string_def encode_undefined)
  have h: "getEmailAttachment (example_index formatBytes example_inline_events) ''m1'' ''logo.png''
     = CbErr (Error ''Attachment not found'')"
    by (simp add: getEmailAttachment_def emailAttachmentStreamById_def emailById_def ix
        new_attachment_def Let_def)
  have run2: "thrown (example_run_p2 sT formatBytes example_inline_events_p2) = None
     \<and> files (disk (example_run_p2 sT formatBytes example_inline_events_p2))
          ''/tmp/maildev/m1/logo.png'' = Some ''PNG''
     \<and> length (completions (example_run_p2 sT formatBytes example_inline_events_p2)) = 1
     \<and> msg (example_run_p2 sT formatBytes example_inline_events_p2)
        = \<lparr>msg_id = ''m1'',
           props = example_envelope(''text'' \<mapsto> JStr ''Hello'',
                                    ''html'' \<mapsto> sT (JStr example_html) [''script'']),
           attachments = Some [(new_attachment_p2 example_part)
                                 \<lparr>att_source := Some ''/tmp/maildev/m1/logo.png''\<rparr>],
           source = None, msg_size = Some 5, sizeHuman = Some (formatBytes 5), read = None\<rparr>" for sT
    by (simp add: p2 example_inline_events_p2_def example_inline_events_def setup_of_store_p2
        on_inStream_data_def on_inStream_end_p2_def on_parser_end_p2_def pipe_end_def set_props_def
        ot2 on_attachment_p2_def open_attachment_sink_def provider_of_store_p2 Let_def
        new_attachment_p2_def example_part_def on_content_data_def on_content_end_def
        path_join_def example_store_def createWriteStream_def mkdir_if_absent_def ws_write_def
        ws_end_def example_fs_def eval_nat_numeral)
  have ix2: "messages (example_index_p2 sT formatBytes example_inline_events_p2)
     = [\<lparr>msg_id = ''m1'',
          props = example_envelope(''text'' \<mapsto> JStr ''Hello'',
                                   ''html'' \<mapsto> sT (JStr example_html) [''script'']),
          attachments = Some [(new_attachment_p2 example_part)
                                \<lparr>att_source := Some ''/tmp/maildev/m1/logo.png''\<rparr>],
          source = None, msg_size = Some 5, sizeHuman = Some (formatBytes 5), read = None\<rparr>]" for sT
    using run2 [of sT]
    by (cases "completions (example_run_p2 sT formatBytes example_inline_events_p2)")
      (simp_all add: idx2)
  have j: "getEmailHTML replace_g (example_index_p2 (\<lambda>v tags. v) formatBytes example_inline_events_p2)
        ''m1'' None
     = (case replace_g (cid_pattern ''logo1'')
               (''src='' @ [CHR 0x22] @ ''/email/m1/attachment/logo.png'' @ [CHR 0x22]) example_html of
          Inl e \<Rightarrow> Threw e
        | Inr h \<Rightarrow> CbOk (JStr h))"
    by (simp add: getEmailHTML_def getEmail_def emailById_def ix2 Let_def prop_of_def
        new_attachment_p2_def example_part_def getFileUrl_def js_string_def encode_logo
        split: sum.split)
  have k: "emailAttachmentStreamById_p2 (example_index_p2 stripTags formatBytes example_inline_events_p2)
        ''m1'' ''logo.png''
     = CbOk (Some ''image/png'', ReadStream ''/tmp/maildev/m1/logo.png'')"
    by (simp add: emailAttachmentStreamById_p2_def emailById_def ix2
        new_attachment_p2_def example_part_def createReadStream_def Let_def)
  from a b c d e f g h run2 [of stripTags] j k show ?thesis by blast
qed

end
